theory Spec2Isabelle
  imports Complex_Main
begin

section \<open>Values of the program\<close>

text \<open>
  A Python \<^verbatim>\<open>str\<close> is a sequence of Unicode code points. The program concatenates
  strings, joins them and strips whitespace, so a string is modelled as the list of its
  code points; \<open>py\<close> embeds an ASCII literal.
\<close>

type_synonym pystr = "nat list"

definition py :: "string \<Rightarrow> pystr" where
  "py s = map of_char s"

text \<open>
  The keys that the program reads by subscript from its configuration, with their names.
\<close>

datatype config_key = Key_llm | Key_config | Key_ollama_base_url | Key_model

fun key_name :: "config_key \<Rightarrow> string" where
  "key_name Key_llm = ''llm''"
| "key_name Key_config = ''config''"
| "key_name Key_ollama_base_url = ''ollama_base_url''"
| "key_name Key_model = ''model''"

text \<open>
  Exceptions (subclasses of \<^verbatim>\<open>Exception\<close>, the ones \<^verbatim>\<open>except Exception\<close> catches).
  \<open>KeyError k\<close> is what the program's own subscript on a configuration dictionary without
  key \<open>k\<close> raises; \<open>RequestException\<close> stands for
  \<^verbatim>\<open>requests.exceptions.RequestException\<close> and its subclasses and carries its message;
  \<open>OtherException\<close> is any other exception (a \<^verbatim>\<open>KeyError\<close> of an external call among
  them), with its message. \<open>str_exn\<close> is Python's \<^verbatim>\<open>str(e)\<close>: for a \<^verbatim>\<open>KeyError\<close> the
  \<^verbatim>\<open>repr\<close> of the key, which for these four names is the name in apostrophes.
\<close>

datatype exn = KeyError config_key | RequestException pystr | OtherException pystr

fun str_exn :: "exn \<Rightarrow> pystr" where
  "str_exn (KeyError k) = py [CHR 0x27] @ py (key_name k) @ py [CHR 0x27]"
| "str_exn (RequestException msg) = msg"
| "str_exn (OtherException msg) = msg"

text \<open>
  The records of the memory engine, typed by the way the program reads them: a key read by
  subscript (\<^verbatim>\<open>memory['id']\<close>, \<^verbatim>\<open>mem['memory']\<close>) is a field, a key read with
  \<^verbatim>\<open>.get\<close> is an optional field (\<open>None\<close>: the key is absent). An engine call returns
  such a dictionary or Python's \<^verbatim>\<open>None\<close>, hence the \<open>option\<close> around \<open>results_dict\<close>.
\<close>

record memory_record =
  id_key :: pystr
  memory :: pystr

record results_dict =
  results :: "memory_record list option"

type_synonym metadata = "(pystr \<times> pystr) list"

section \<open>Configuration\<close>

text \<open>
  The configuration dictionary read from the JSON file. \<^verbatim>\<open>memory_config\<close> is present in
  every constructed manager (\<^verbatim>\<open>_initialize_memory\<close> fails without it); every other
  key may be absent. Numbers of the JSON file that are only forwarded are rationals.
\<close>

record llm_config =
  ollama_base_url :: "pystr option"
  model :: "pystr option"
  max_tokens :: "int option"

record llm_section =
  llm_inner_config :: "llm_config option"

record memory_config =
  llm :: "llm_section option"

record chat_options =
  max_context_memories :: "int option"
  temperature :: "rat option"
  response_timeout :: "rat option"

record processing_options =
  po_user_id :: "pystr option"

record config =
  memory_cfg :: memory_config
  chat_opts :: "chat_options option"
  processing_opts :: "processing_options option"

text \<open>
  The manager object: its configuration and default user id, as \<^verbatim>\<open>__init__\<close> sets them
  (\<^verbatim>\<open>self.config.get('processing_options', {}).get('user_id', 'default')\<close>). Loading the
  file and constructing the engine are outside this model.
\<close>

record manager =
  config :: config
  user_id :: pystr

definition init_user_id :: "config \<Rightarrow> pystr" where
  "init_user_id cfg =
     (case processing_opts cfg of
        None \<Rightarrow> py ''default''
      | Some po \<Rightarrow> (case po_user_id po of None \<Rightarrow> py ''default'' | Some u \<Rightarrow> u))"

definition new_manager :: "config \<Rightarrow> manager" where
  "new_manager cfg = \<lparr>config = cfg, user_id = init_user_id cfg\<rparr>"

section \<open>The outside world\<close>

text \<open>
  The memory engine, the prompt template service, the HTTP library and the clock are
  external. Each is a function of the state of the world \<open>'w\<close> that returns a result or
  an exception together with the next state of the world.
\<close>

record gen_options =
  opt_temperature :: rat
  opt_num_predict :: int

record payload =
  pl_model :: pystr
  pl_prompt :: pystr
  pl_stream :: bool
  pl_options :: gen_options

record gen_body =
  response :: "pystr option"

text \<open>
  An HTTP response: its status code, the message \<^verbatim>\<open>raise_for_status\<close> puts in its
  \<^verbatim>\<open>HTTPError\<close> for this response, and what \<^verbatim>\<open>response.json()\<close> gives (an exception
  when the body is not JSON).
\<close>

record http_response =
  status_code :: int
  http_error_msg :: pystr
  json :: "exn + gen_body"

record 'w env =
  memory_add :: "pystr \<Rightarrow> pystr \<Rightarrow> metadata option \<Rightarrow> 'w \<Rightarrow> (exn + results_dict option) \<times> 'w"
  memory_search :: "pystr \<Rightarrow> pystr \<Rightarrow> int \<Rightarrow> 'w \<Rightarrow> (exn + results_dict option) \<times> 'w"
  memory_get_all :: "pystr \<Rightarrow> 'w \<Rightarrow> (exn + results_dict option) \<times> 'w"
  memory_delete :: "pystr \<Rightarrow> 'w \<Rightarrow> (exn + unit) \<times> 'w"
  get_prompt :: "string \<Rightarrow> string \<Rightarrow> (string \<times> pystr) list \<Rightarrow> 'w \<Rightarrow> (exn + pystr) \<times> 'w"
  requests_post :: "pystr \<Rightarrow> payload \<Rightarrow> rat \<Rightarrow> 'w \<Rightarrow> (exn + http_response) \<times> 'w"
  time_sleep :: "int \<Rightarrow> 'w \<Rightarrow> 'w"

text \<open>
  Every call that leaves the program is recorded, in order, with its arguments and
  whether it returned (\<open>True\<close>) or raised (\<open>False\<close>). Calls of the logger are not
  recorded: they return nothing and the logging module does not raise.
\<close>

datatype call =
    MemoryAdd pystr pystr "metadata option"
  | MemorySearch pystr pystr int
  | MemoryGetAll pystr
  | MemoryDelete pystr
  | GetPrompt string string "(string \<times> pystr) list"
  | RequestsPost pystr payload rat

datatype event = Called call bool | Slept int

record 'w state =
  world :: 'w
  trace :: "event list"

definition returned :: "exn + 'a \<Rightarrow> bool" where
  "returned r = (case r of Inl _ \<Rightarrow> False | Inr _ \<Rightarrow> True)"

definition perform :: "call \<Rightarrow> ('w \<Rightarrow> (exn + 'a) \<times> 'w) \<Rightarrow> 'w state \<Rightarrow> (exn + 'a) \<times> 'w state" where
  "perform c f st =
     (case f (world st) of
        (r, w') \<Rightarrow> (r, \<lparr>world = w', trace = trace st @ [Called c (returned r)]\<rparr>))"

definition sleep :: "'w env \<Rightarrow> int \<Rightarrow> 'w state \<Rightarrow> 'w state" where
  "sleep E secs st = \<lparr>world = time_sleep E secs (world st), trace = trace st @ [Slept secs]\<rparr>"

section \<open>Python primitives\<close>

text \<open>\<^verbatim>\<open>user_id or self.user_id\<close>: \<^verbatim>\<open>None\<close> and the empty string are falsy.\<close>

definition or_str :: "pystr option \<Rightarrow> pystr \<Rightarrow> pystr" where
  "or_str a b = (case a of None \<Rightarrow> b | Some s \<Rightarrow> if s = [] then b else s)"

text \<open>\<^verbatim>\<open>range(n)\<close>: the integers from 0 up to \<open>n - 1\<close>, none when \<open>n \<le> 0\<close>.\<close>

definition py_range :: "int \<Rightarrow> int list" where
  "py_range n = [0..n - 1]"

text \<open>
  The truth value of \<^verbatim>\<open>d and d.get('results')\<close> (equally of
  \<^verbatim>\<open>not (not d or not d.get('results'))\<close>): false for \<^verbatim>\<open>None\<close>, for a dictionary
  without \<^verbatim>\<open>results\<close> and for an empty list.
\<close>

definition has_results :: "results_dict option \<Rightarrow> bool" where
  "has_results d =
     (case d of
        None \<Rightarrow> False
      | Some r \<Rightarrow> (case results r of None \<Rightarrow> False | Some rs \<Rightarrow> rs \<noteq> []))"

text \<open>\<^verbatim>\<open>d['results']\<close>, read where \<open>has_results d\<close> holds (the list is empty otherwise).\<close>

definition results_of :: "results_dict option \<Rightarrow> memory_record list" where
  "results_of d =
     (case d of
        None \<Rightarrow> []
      | Some r \<Rightarrow> (case results r of None \<Rightarrow> [] | Some rs \<Rightarrow> rs))"

text \<open>
  \<^verbatim>\<open>max_context_memories or default\<close>: \<^verbatim>\<open>None\<close> and 0 are falsy.
\<close>

definition or_int :: "int option \<Rightarrow> int \<Rightarrow> int" where
  "or_int a b = (case a of None \<Rightarrow> b | Some n \<Rightarrow> if n = 0 then b else n)"

text \<open>\<^verbatim>\<open>sep.join(xs)\<close>.\<close>

fun join :: "pystr \<Rightarrow> pystr list \<Rightarrow> pystr" where
  "join sep [] = []"
| "join sep [x] = x"
| "join sep (x # y # ys) = x @ sep @ join sep (y # ys)"

text \<open>
  \<^verbatim>\<open>str.isspace\<close> on one code point and \<^verbatim>\<open>str.strip()\<close>, which removes the
  leading and the trailing whitespace code points.
\<close>

definition isspace :: "nat \<Rightarrow> bool" where
  "isspace c \<longleftrightarrow>
     (0x09 \<le> c \<and> c \<le> 0x0D) \<or> (0x1C \<le> c \<and> c \<le> 0x20) \<or> c = 0x85 \<or> c = 0xA0 \<or>
     c = 0x1680 \<or> (0x2000 \<le> c \<and> c \<le> 0x200A) \<or> c = 0x2028 \<or> c = 0x2029 \<or>
     c = 0x202F \<or> c = 0x205F \<or> c = 0x3000"

definition strip :: "pystr \<Rightarrow> pystr" where
  "strip s = rev (dropWhile isspace (rev (dropWhile isspace s)))"

section \<open>add_fact\<close>

text \<open>
  The loop of \<^verbatim>\<open>add_fact\<close> over the remaining attempt numbers. Both branches of the
  test on the result return it (they differ in the log line only). An exhausted range
  falls off the end of the function, which returns \<^verbatim>\<open>None\<close>.
\<close>

fun add_fact_loop ::
  "'w env \<Rightarrow> pystr \<Rightarrow> pystr \<Rightarrow> metadata option \<Rightarrow> int \<Rightarrow> int list \<Rightarrow> 'w state
     \<Rightarrow> results_dict option \<times> 'w state" where
  "add_fact_loop E fct uid md max_retries [] st = (None, st)"
| "add_fact_loop E fct uid md max_retries (attempt # rest) st =
     (case perform (MemoryAdd fct uid md) (memory_add E fct uid md) st of
        (Inr result, st') \<Rightarrow>
          if has_results result then (result, st') else (result, st')
      | (Inl e, st') \<Rightarrow>
          if attempt < max_retries - 1
          then add_fact_loop E fct uid md max_retries rest (sleep E 2 st')
          else (None, st'))"

definition add_fact ::
  "manager \<Rightarrow> 'w env \<Rightarrow> pystr \<Rightarrow> pystr option \<Rightarrow> metadata option \<Rightarrow> int \<Rightarrow> 'w state
     \<Rightarrow> results_dict option \<times> 'w state" where
  "add_fact self E fct uid md max_retries st =
     (let user = or_str uid (user_id self)
      in add_fact_loop E fct user md max_retries (py_range max_retries) st)"

section \<open>search_memories, get_all_memories\<close>

text \<open>
  One call of the engine inside \<^verbatim>\<open>try\<close>. The debug line evaluates
  \<^verbatim>\<open>results.get('results', [])\<close>, which raises on \<^verbatim>\<open>None\<close>; the handler then returns
  \<^verbatim>\<open>None\<close>, the value the engine gave.
\<close>

definition search_memories ::
  "manager \<Rightarrow> 'w env \<Rightarrow> pystr \<Rightarrow> pystr option \<Rightarrow> int \<Rightarrow> 'w state
     \<Rightarrow> results_dict option \<times> 'w state" where
  "search_memories self E query uid limit st =
     (let user = or_str uid (user_id self)
      in case perform (MemorySearch query user limit) (memory_search E query user limit) st of
           (Inr found, st') \<Rightarrow> (case found of None \<Rightarrow> (None, st') | Some d \<Rightarrow> (Some d, st'))
         | (Inl e, st') \<Rightarrow> (None, st'))"

definition get_all_memories ::
  "manager \<Rightarrow> 'w env \<Rightarrow> pystr option \<Rightarrow> 'w state \<Rightarrow> results_dict option \<times> 'w state" where
  "get_all_memories self E uid st =
     (let user = or_str uid (user_id self)
      in case perform (MemoryGetAll user) (memory_get_all E user) st of
           (Inr found, st') \<Rightarrow> (case found of None \<Rightarrow> (None, st') | Some d \<Rightarrow> (Some d, st'))
         | (Inl e, st') \<Rightarrow> (None, st'))"

section \<open>reset_memories\<close>

text \<open>The deletion loop: a failed delete is logged and the loop goes on.\<close>

fun delete_loop :: "'w env \<Rightarrow> memory_record list \<Rightarrow> int \<Rightarrow> 'w state \<Rightarrow> int \<times> 'w state" where
  "delete_loop E [] deleted_count st = (deleted_count, st)"
| "delete_loop E (m # ms) deleted_count st =
     (case perform (MemoryDelete (id_key m)) (memory_delete E (id_key m)) st of
        (Inr u, st') \<Rightarrow> delete_loop E ms (deleted_count + 1) st'
      | (Inl e, st') \<Rightarrow> delete_loop E ms deleted_count st')"

text \<open>The block under the outer \<^verbatim>\<open>try\<close>, then the function with its handler.\<close>

definition reset_try ::
  "manager \<Rightarrow> 'w env \<Rightarrow> pystr \<Rightarrow> 'w state \<Rightarrow> (exn + int) \<times> 'w state" where
  "reset_try self E user st =
     (case get_all_memories self E (Some user) st of
        (all_memories, st') \<Rightarrow>
          if \<not> has_results all_memories then (Inr 0, st')
          else (case delete_loop E (results_of all_memories) 0 st' of
                  (deleted_count, st'') \<Rightarrow> (Inr deleted_count, st'')))"

definition reset_memories ::
  "manager \<Rightarrow> 'w env \<Rightarrow> pystr option \<Rightarrow> 'w state \<Rightarrow> (exn + int) \<times> 'w state" where
  "reset_memories self E uid st =
     (let user = or_str uid (user_id self)
      in case reset_try self E user st of
           (Inr n, st') \<Rightarrow> (Inr n, st')
         | (Inl e, st') \<Rightarrow> (Inr 0, st'))"

section \<open>chat\<close>

text \<open>The context block (\<^verbatim>\<open># Format context\<close>). The bullet is U+2022.\<close>

definition format_context :: "pystr \<Rightarrow> results_dict option \<Rightarrow> pystr" where
  "format_context user memories =
     (if \<not> has_results memories
      then py ''No specific information available about '' @ user @ py ''.''
      else (let memory_facts = map memory (results_of memories)
            in py ''Facts about '' @ user @ py '':'' @ [0x0A] @
               join [0x0A] (map (\<lambda>fct. [0x2022, 0x20] @ fct) memory_facts)))"

text \<open>
  The prompt block (\<^verbatim>\<open># Get chat prompt from prompt manager\<close>): the template, the error
  template, the fixed sentence.
\<close>

definition resolve_prompt ::
  "'w env \<Rightarrow> pystr \<Rightarrow> pystr \<Rightarrow> pystr \<Rightarrow> 'w state \<Rightarrow> (exn + pystr) \<times> 'w state" where
  "resolve_prompt E user context query st =
     (let args = [(''user_id'', user), (''context'', context), (''query'', query)]
      in case perform (GetPrompt ''chat'' ''user_interaction'' args)
                (get_prompt E ''chat'' ''user_interaction'' args) st of
           (Inr prompt, st1) \<Rightarrow> (Inr prompt, st1)
         | (Inl e, st1) \<Rightarrow>
             (let args2 = [(''query'', query), (''error_message'', str_exn e)]
              in case perform (GetPrompt ''chat'' ''error_response'' args2)
                        (get_prompt E ''chat'' ''error_response'' args2) st1 of
                   (Inr prompt, st2) \<Rightarrow> (Inr prompt, st2)
                 | (Inl e2, st2) \<Rightarrow>
                     (Inr (py ''I apologize, but I'' @ [0x27] @
                           py ''m having trouble processing your request: '' @ query), st2)))"

section \<open>_call_ollama_api\<close>

text \<open>
  The request built from the configuration (the lines before the \<^verbatim>\<open>try\<close>): the
  subscripts raise \<^verbatim>\<open>KeyError\<close> on an absent key, the \<^verbatim>\<open>.get\<close> calls have defaults.
\<close>

definition build_request :: "manager \<Rightarrow> pystr \<Rightarrow> exn + (pystr \<times> payload \<times> rat)" where
  "build_request self prompt =
     (let chat_config = chat_opts (config self)
      in case llm (memory_cfg (config self)) of
           None \<Rightarrow> Inl (KeyError Key_llm)
         | Some l \<Rightarrow>
        (case llm_inner_config l of
           None \<Rightarrow> Inl (KeyError Key_config)
         | Some mc \<Rightarrow>
        (case ollama_base_url mc of
           None \<Rightarrow> Inl (KeyError Key_ollama_base_url)
         | Some base \<Rightarrow>
        (case model mc of
           None \<Rightarrow> Inl (KeyError Key_model)
         | Some mdl \<Rightarrow>
             Inr (base @ py ''/api/generate'',
                  \<lparr>pl_model = mdl, pl_prompt = prompt, pl_stream = False,
                   pl_options =
                     \<lparr>opt_temperature =
                        (case chat_config of None \<Rightarrow> 7 / 10
                         | Some c \<Rightarrow> (case temperature c of None \<Rightarrow> 7 / 10 | Some t \<Rightarrow> t)),
                      opt_num_predict =
                        (case max_tokens mc of None \<Rightarrow> 2000 | Some n \<Rightarrow> n)\<rparr>\<rparr>,
                  (case chat_config of None \<Rightarrow> 60
                   | Some c \<Rightarrow> (case response_timeout c of None \<Rightarrow> 60 | Some t \<Rightarrow> t)))))))"

text \<open>
  \<^verbatim>\<open>Response.raise_for_status\<close> of the requests library: an \<^verbatim>\<open>HTTPError\<close> (a
  \<^verbatim>\<open>RequestException\<close>) for a status code from 400 to 599, nothing otherwise.
\<close>

definition raise_for_status :: "http_response \<Rightarrow> exn + unit" where
  "raise_for_status r =
     (if 400 \<le> status_code r \<and> status_code r < 600
      then Inl (RequestException (http_error_msg r)) else Inr ())"

text \<open>
  The handler of \<^verbatim>\<open>_call_ollama_api\<close> logs a \<^verbatim>\<open>RequestException\<close> and raises it again;
  any other exception leaves the function as it is.
\<close>

definition call_ollama_api ::
  "manager \<Rightarrow> 'w env \<Rightarrow> pystr \<Rightarrow> 'w state \<Rightarrow> (exn + pystr) \<times> 'w state" where
  "call_ollama_api self E prompt st =
     (case build_request self prompt of
        Inl e \<Rightarrow> (Inl e, st)
      | Inr (ollama_url, pl, timeout) \<Rightarrow>
          (case perform (RequestsPost ollama_url pl timeout)
                  (requests_post E ollama_url pl timeout) st of
             (Inl e, st') \<Rightarrow> (Inl e, st')
           | (Inr resp, st') \<Rightarrow>
               (case raise_for_status resp of
                  Inl e \<Rightarrow> (Inl e, st')
                | Inr u \<Rightarrow>
                    (case json resp of
                       Inl e \<Rightarrow> (Inl e, st')
                     | Inr result \<Rightarrow>
                         (case response result of
                            Some r \<Rightarrow> (Inr (strip r), st')
                          | None \<Rightarrow>
                              (Inr (py ''Sorry, I couldn'' @ [0x27] @
                                    py ''t generate a response.''), st'))))))"

section \<open>chat, continued\<close>

text \<open>
  The default of \<^verbatim>\<open>max_context_memories\<close>:
  \<^verbatim>\<open>self.config.get('chat_options', {}).get('max_context_memories', 5)\<close>.
\<close>

definition config_max_context_memories :: "config \<Rightarrow> int" where
  "config_max_context_memories cfg =
     (case chat_opts cfg of
        None \<Rightarrow> 5
      | Some c \<Rightarrow> (case max_context_memories c of None \<Rightarrow> 5 | Some n \<Rightarrow> n))"

text \<open>The block under the \<^verbatim>\<open>try\<close> of \<^verbatim>\<open>chat\<close>, then the function with its handler.\<close>

definition chat_try ::
  "manager \<Rightarrow> 'w env \<Rightarrow> pystr \<Rightarrow> pystr \<Rightarrow> int \<Rightarrow> 'w state \<Rightarrow> (exn + pystr) \<times> 'w state" where
  "chat_try self E query user limit st =
     (case search_memories self E query (Some user) limit st of
        (memories, st1) \<Rightarrow>
          (let context = format_context user memories
           in case resolve_prompt E user context query st1 of
                (Inl e, st2) \<Rightarrow> (Inl e, st2)
              | (Inr prompt, st2) \<Rightarrow> call_ollama_api self E prompt st2))"

definition chat ::
  "manager \<Rightarrow> 'w env \<Rightarrow> pystr \<Rightarrow> pystr option \<Rightarrow> int option \<Rightarrow> 'w state
     \<Rightarrow> (exn + pystr) \<times> 'w state" where
  "chat self E query uid max_ctx st =
     (let user = or_str uid (user_id self);
          limit = or_int max_ctx (config_max_context_memories (config self))
      in case chat_try self E query user limit st of
           (Inr answer, st') \<Rightarrow> (Inr answer, st')
         | (Inl e, st') \<Rightarrow> (Inr (py ''Sorry, I encountered an error: '' @ str_exn e), st'))"

section \<open>Notions of the statements\<close>

text \<open>An external call that raises.\<close>

definition raises :: "(exn + 'a) \<times> 'w \<Rightarrow> bool" where
  "raises out = (case fst out of Inl _ \<Rightarrow> True | Inr _ \<Rightarrow> False)"

text \<open>
  The world in which \<^verbatim>\<open>add_fact\<close> makes attempt number \<open>j\<close> (from 0) when every
  earlier attempt raised: each failed attempt is followed by the sleep of 2 seconds.
\<close>

primrec attempt_world ::
  "'w env \<Rightarrow> pystr \<Rightarrow> pystr \<Rightarrow> metadata option \<Rightarrow> 'w \<Rightarrow> nat \<Rightarrow> 'w" where
  "attempt_world E fct user md w 0 = w"
| "attempt_world E fct user md w (Suc j) =
     attempt_world E fct user md (time_sleep E 2 (snd (memory_add E fct user md w))) j"

text \<open>The calls of \<^verbatim>\<open>memory.add\<close> in a trace, and the durations of its sleeps.\<close>

definition add_calls :: "event list \<Rightarrow> event list" where
  "add_calls evs =
     filter (\<lambda>ev. case ev of Called (MemoryAdd _ _ _) _ \<Rightarrow> True | _ \<Rightarrow> False) evs"

definition sleeps :: "event list \<Rightarrow> int list" where
  "sleeps evs = concat (map (\<lambda>ev. case ev of Called _ _ \<Rightarrow> [] | Slept s \<Rightarrow> [s]) evs)"

section \<open>Example environments\<close>

text \<open>
  A configuration with the keys of the generation endpoint and nothing else, an
  environment in which every external call raises, and one whose engine fails the first
  \<^verbatim>\<open>add\<close> and then returns an empty \<^verbatim>\<open>results\<close> list (the world counts the calls).
\<close>

definition cfg0 :: config where
  "cfg0 = \<lparr>memory_cfg = \<lparr>llm = Some \<lparr>llm_inner_config =
              Some \<lparr>ollama_base_url = Some (py ''http://localhost:11434''),
                    model = Some (py ''llama3''), max_tokens = None\<rparr>\<rparr>\<rparr>,
           chat_opts = None, processing_opts = None\<rparr>"

definition env_down :: "'w env" where
  "env_down =
     \<lparr>memory_add = (\<lambda>fct user md w. (Inl (OtherException (py ''engine down'')), w)),
      memory_search = (\<lambda>query user limit w. (Inl (OtherException (py ''engine down'')), w)),
      memory_get_all = (\<lambda>user w. (Inl (OtherException (py ''engine down'')), w)),
      memory_delete = (\<lambda>i w. (Inl (OtherException (py ''engine down'')), w)),
      get_prompt = (\<lambda>category name args w. (Inl (OtherException (py ''no template'')), w)),
      requests_post = (\<lambda>url pl timeout w. (Inl (RequestException (py ''connection refused'')), w)),
      time_sleep = (\<lambda>secs w. w)\<rparr>"

definition env_second_add :: "nat env" where
  "env_second_add =
     env_down\<lparr>memory_add := (\<lambda>fct user md w.
        if w = 0 then (Inl (OtherException (py ''warming up'')), Suc w)
        else (Inr (Some \<lparr>results = Some []\<rparr>), Suc w))\<rparr>"

text \<open>
  A generation endpoint that answers 200 with a text, one that answers 300 (a status that
  is neither a success nor an error for \<^verbatim>\<open>raise_for_status\<close>) with a JSON body, and the
  environment of each; the prompt templates and the engine are down in both.
\<close>

definition resp_ok :: http_response where
  "resp_ok = \<lparr>status_code = 200, http_error_msg = [],
               json = Inr \<lparr>response = Some (py ''  You like pizza. '' @ [0x0A])\<rparr>\<rparr>"

definition resp_300 :: http_response where
  "resp_300 = \<lparr>status_code = 300, http_error_msg = [],
                json = Inr \<lparr>response = Some (py '' hi '')\<rparr>\<rparr>"

definition env_ok :: "unit env" where
  "env_ok = env_down\<lparr>requests_post := (\<lambda>url pl timeout w. (Inr resp_ok, w))\<rparr>"

definition env_300 :: "unit env" where
  "env_300 = env_down\<lparr>requests_post := (\<lambda>url pl timeout w. (Inr resp_300, w))\<rparr>"

text \<open>
  A generation endpoint that answers 200 with a text of two spaces, in an environment
  whose engine is down and whose templates are the concatenation of their bindings.
\<close>

definition resp_blank :: http_response where
  "resp_blank = \<lparr>status_code = 200, http_error_msg = [],
                  json = Inr \<lparr>response = Some (py ''  '')\<rparr>\<rparr>"

definition env_blank :: "unit env" where
  "env_blank =
     env_down\<lparr>get_prompt := (\<lambda>category name args w. (Inr (concat (map snd args)), w)),
              requests_post := (\<lambda>url pl timeout w. (Inr resp_blank, w))\<rparr>"

text \<open>
  Four records and an engine whose search returns at most \<open>limit\<close> of them (and rejects
  a negative limit).
\<close>

definition four_records :: "memory_record list" where
  "four_records =
     [\<lparr>id_key = py ''m1'', memory = py ''Lives in NYC''\<rparr>,
      \<lparr>id_key = py ''m2'', memory = py ''Likes pizza''\<rparr>,
      \<lparr>id_key = py ''m3'', memory = py ''Has a dog''\<rparr>,
      \<lparr>id_key = py ''m4'', memory = py ''Plays chess''\<rparr>]"

definition env_bounded :: "unit env" where
  "env_bounded =
     env_down\<lparr>memory_search :=
        (\<lambda>query user limit w.
           if limit < 0 then (Inl (OtherException (py ''negative limit'')), w)
           else (Inr (Some \<lparr>results = Some (take (nat limit) four_records)\<rparr>), w))\<rparr>"

text \<open>The calls of \<^verbatim>\<open>memory.delete\<close> in a trace: the id and whether the call returned.\<close>

definition delete_calls :: "event list \<Rightarrow> (pystr \<times> bool) list" where
  "delete_calls evs =
     concat (map (\<lambda>ev. case ev of Called (MemoryDelete i) ok \<Rightarrow> [(i, ok)] | _ \<Rightarrow> []) evs)"

text \<open>
  A reliable engine with no writes in between, seen through the memories \<open>contents w u\<close>
  of user \<open>u\<close> in world \<open>w\<close>: listing returns them and changes nothing, a delete
  returns and removes the memories of that id and nothing else.
\<close>

definition reliable_engine :: "'w env \<Rightarrow> ('w \<Rightarrow> pystr \<Rightarrow> memory_record list) \<Rightarrow> bool" where
  "reliable_engine E contents \<longleftrightarrow>
     (\<forall>u w. memory_get_all E u w = (Inr (Some \<lparr>results = Some (contents w u)\<rparr>), w))
     \<and> (\<forall>i w. \<exists>w'. memory_delete E i w = (Inr (), w')
            \<and> (\<forall>u. contents w' u = filter (\<lambda>m. id_key m \<noteq> i) (contents w u)))"

text \<open>
  An engine that is a list of memories with their users, and a store with two memories
  of \<^verbatim>\<open>bruce\<close> and one of \<^verbatim>\<open>alice\<close>.
\<close>

definition store_contents :: "(pystr \<times> memory_record) list \<Rightarrow> pystr \<Rightarrow> memory_record list" where
  "store_contents w u = map snd (filter (\<lambda>p. fst p = u) w)"

definition env_store :: "(pystr \<times> memory_record) list env" where
  "env_store =
     env_down\<lparr>memory_get_all := (\<lambda>u w. (Inr (Some \<lparr>results = Some (store_contents w u)\<rparr>), w)),
              memory_delete := (\<lambda>i w. (Inr (), filter (\<lambda>p. id_key (snd p) \<noteq> i) w))\<rparr>"

definition store0 :: "(pystr \<times> memory_record) list" where
  "store0 =
     [(py ''bruce'', \<lparr>id_key = py ''m1'', memory = py ''Lives in NYC''\<rparr>),
      (py ''alice'', \<lparr>id_key = py ''m2'', memory = py ''Likes tea''\<rparr>),
      (py ''bruce'', \<lparr>id_key = py ''m3'', memory = py ''Likes pizza''\<rparr>)]"

section \<open>Properties\<close>

subsection \<open>Auxiliary facts\<close>

lemma join_Cons: "xs \<noteq> [] \<Longrightarrow> join sep (x # xs) = x @ sep @ join sep xs"
  by (cases xs) simp_all

subsection \<open>The context of a chat\<close>

text \<open>
  Claim C4. Without a search result (\<^verbatim>\<open>None\<close>), without a \<^verbatim>\<open>results\<close> key or with an
  empty \<^verbatim>\<open>results\<close> list the context is the sentence
  \<^verbatim>\<open>No specific information available about {user_id}.\<close>; with a non-empty list it is
  the lines \<^verbatim>\<open>Facts about {user_id}:\<close> and one bullet line per fact, in the order of the
  list, joined by newlines. For the two facts of the example and the user \<^verbatim>\<open>bruce\<close> it is
  the string the specification gives.
\<close>

theorem format_context_spec:
  "format_context user None = py ''No specific information available about '' @ user @ py ''.''
   \<and> format_context user (Some \<lparr>results = None\<rparr>)
       = py ''No specific information available about '' @ user @ py ''.''
   \<and> format_context user (Some \<lparr>results = Some []\<rparr>)
       = py ''No specific information available about '' @ user @ py ''.''
   \<and> format_context user (Some \<lparr>results = Some (r # rs)\<rparr>)
       = join [0x0A] ((py ''Facts about '' @ user @ py '':'')
                        # map (\<lambda>m. [0x2022, 0x20] @ memory m) (r # rs))
   \<and> format_context (py ''bruce'')
         (Some \<lparr>results = Some [\<lparr>id_key = i1, memory = py ''Lives in NYC''\<rparr>,
                                 \<lparr>id_key = i2, memory = py ''Likes pizza''\<rparr>]\<rparr>)
       = py ''Facts about bruce:'' @ [0x0A, 0x2022] @ py '' Lives in NYC''
           @ [0x0A, 0x2022] @ py '' Likes pizza''"
  by (simp add: format_context_def has_results_def results_of_def join_Cons py_def comp_def)

theorem format_context_spec_witness:
  "format_context (py ''al'') (Some \<lparr>results = Some [\<lparr>id_key = py ''1'', memory = py ''x''\<rparr>]\<rparr>)
     = py ''Facts about al:'' @ [0x0A, 0x2022] @ py '' x''"
  using format_context_spec [of "py ''al''" "\<lparr>id_key = py ''1'', memory = py ''x''\<rparr>" "[]"]
  by (simp add: py_def)

subsection \<open>Writing a fact\<close>

lemma perform_raises:
  "raises (f (world st)) \<Longrightarrow>
   \<exists>e. perform c f st = (Inl e, \<lparr>world = snd (f (world st)), trace = trace st @ [Called c False]\<rparr>)"
  by (cases "f (world st)") (auto simp: raises_def perform_def returned_def split: sum.splits)

lemma perform_returns:
  "f (world st) = (Inr r, w') \<Longrightarrow>
   perform c f st = (Inr r, \<lparr>world = w', trace = trace st @ [Called c True]\<rparr>)"
  by (simp add: perform_def returned_def)

lemma add_fact_loop_all_fail:
  "\<forall>w. raises (memory_add E fct user md w) \<Longrightarrow> n = nat (m - 1 - a) \<Longrightarrow> a \<le> m - 1 \<Longrightarrow>
   fst (add_fact_loop E fct user md m [a..m - 1] st) = None \<and>
   trace (snd (add_fact_loop E fct user md m [a..m - 1] st)) =
     trace st @ Called (MemoryAdd fct user md) False
       # concat (replicate n [Slept 2, Called (MemoryAdd fct user md) False])"
proof (induction n arbitrary: a st)
  case 0
  then have a: "a = m - 1" by simp
  obtain e where p: "perform (MemoryAdd fct user md) (memory_add E fct user md) st
      = (Inl e, \<lparr>world = snd (memory_add E fct user md (world st)),
                 trace = trace st @ [Called (MemoryAdd fct user md) False]\<rparr>)"
    using perform_raises 0(1) by blast
  have "[a..m - 1] = [a]" using a by simp
  then show ?case using p a by simp
next
  case (Suc n)
  then have lt: "a < m - 1" and n: "n = nat (m - 1 - (a + 1))" and le: "a + 1 \<le> m - 1" by auto
  obtain e where p: "perform (MemoryAdd fct user md) (memory_add E fct user md) st
      = (Inl e, \<lparr>world = snd (memory_add E fct user md (world st)),
                 trace = trace st @ [Called (MemoryAdd fct user md) False]\<rparr>)"
    using perform_raises Suc(2) by blast
  have u: "[a..m - 1] = a # [a + 1..m - 1]" using lt by (simp add: upto_rec1)
  show ?case
    using Suc.IH [OF Suc(2) n le, of "sleep E 2 \<lparr>world = snd (memory_add E fct user md (world st)),
                 trace = trace st @ [Called (MemoryAdd fct user md) False]\<rparr>"] p lt
    by (simp add: u sleep_def)
qed

lemma add_fact_loop_first_success:
  "\<forall>j<k. raises (memory_add E fct user md (attempt_world E fct user md (world st) j)) \<Longrightarrow>
   memory_add E fct user md (attempt_world E fct user md (world st) k) = (Inr r, w') \<Longrightarrow>
   a + int k \<le> m - 1 \<Longrightarrow>
   add_fact_loop E fct user md m [a..m - 1] st =
     (r, \<lparr>world = w',
          trace = trace st @ concat (replicate k [Called (MemoryAdd fct user md) False, Slept 2])
                    @ [Called (MemoryAdd fct user md) True]\<rparr>)"
proof (induction k arbitrary: a st)
  case 0
  then have u: "[a..m - 1] = a # [a + 1..m - 1]" by (simp add: upto_rec1)
  show ?case using 0 by (simp add: u perform_returns)
next
  case (Suc k)
  let ?st1 = "\<lparr>world = snd (memory_add E fct user md (world st)),
                 trace = trace st @ [Called (MemoryAdd fct user md) False]\<rparr>"
  have "raises (memory_add E fct user md (attempt_world E fct user md (world st) 0))"
    using Suc.prems(1) by blast
  then obtain e where p: "perform (MemoryAdd fct user md) (memory_add E fct user md) st = (Inl e, ?st1)"
    using perform_raises [of "memory_add E fct user md" st] by auto
  have lt: "a < m - 1" and le: "(a + 1) + int k \<le> m - 1" using Suc.prems(3) by auto
  have u: "[a..m - 1] = a # [a + 1..m - 1]" using lt by (simp add: upto_rec1)
  have f: "\<forall>j<k. raises (memory_add E fct user md (attempt_world E fct user md (world (sleep E 2 ?st1)) j))"
    using Suc.prems(1) by (auto simp: sleep_def)
  have s: "memory_add E fct user md (attempt_world E fct user md (world (sleep E 2 ?st1)) k) = (Inr r, w')"
    using Suc.prems(2) by (simp add: sleep_def)
  show ?case
    using Suc.IH [OF f s le] p lt by (simp add: u sleep_def)
qed

lemma add_calls_retry:
  "add_calls (Called (MemoryAdd f u md) b # concat (replicate n [Slept s, Called (MemoryAdd f u md) b]))
     = replicate (Suc n) (Called (MemoryAdd f u md) b)"
  by (induction n) (simp_all add: add_calls_def)

lemma sleeps_retry:
  "sleeps (Called c b # concat (replicate n [Slept s, Called c b])) = replicate n s"
  by (induction n) (simp_all add: sleeps_def)

text \<open>
  Claim C2. When every call of \<^verbatim>\<open>memory.add\<close> for this fact raises and
  \<open>max_retries\<close> is positive, \<^verbatim>\<open>add_fact\<close> returns \<^verbatim>\<open>None\<close> after exactly
  \<open>max_retries\<close> calls of \<^verbatim>\<open>memory.add\<close>, with a sleep of 2 seconds after each failed
  call but the last: \<open>max_retries - 1\<close> sleeps, and nothing else leaves the program.
\<close>

theorem add_fact_all_attempts_fail:
  assumes "\<forall>w. raises (memory_add E fct (or_str uid (user_id self)) md w)"
    and "0 < max_retries"
  shows "\<exists>evs. fst (add_fact self E fct uid md max_retries st) = None
     \<and> trace (snd (add_fact self E fct uid md max_retries st)) = trace st @ evs
     \<and> evs = Called (MemoryAdd fct (or_str uid (user_id self)) md) False
               # concat (replicate (nat (max_retries - 1))
                   [Slept 2, Called (MemoryAdd fct (or_str uid (user_id self)) md) False])
     \<and> int (length (add_calls evs)) = max_retries
     \<and> int (length (sleeps evs)) = max_retries - 1
     \<and> sleeps evs = replicate (nat (max_retries - 1)) 2"
proof -
  have "0 \<le> max_retries - 1" using assms(2) by simp
  from add_fact_loop_all_fail [OF assms(1) _ this, of "nat (max_retries - 1)" st]
  show ?thesis
    using assms(2) by (simp add: add_fact_def py_range_def add_calls_retry sleeps_retry)
qed

theorem add_fact_all_attempts_fail_witness:
  "fst (add_fact (new_manager cfg0) env_down (py ''Bruce likes pizza'') None None 3
          \<lparr>world = (), trace = []\<rparr>) = None
   \<and> trace (snd (add_fact (new_manager cfg0) env_down (py ''Bruce likes pizza'') None None 3
          \<lparr>world = (), trace = []\<rparr>))
      = [Called (MemoryAdd (py ''Bruce likes pizza'') (py ''default'') None) False, Slept 2,
         Called (MemoryAdd (py ''Bruce likes pizza'') (py ''default'') None) False, Slept 2,
         Called (MemoryAdd (py ''Bruce likes pizza'') (py ''default'') None) False]"
  using add_fact_all_attempts_fail [of env_down "py ''Bruce likes pizza''" None "new_manager cfg0"
      None 3 "\<lparr>world = (), trace = []\<rparr>"]
  by (simp add: env_down_def raises_def new_manager_def init_user_id_def cfg0_def or_str_def
      numeral_2_eq_2)

text \<open>
  Claim C3. When the attempts before attempt \<open>k\<close> raise and attempt \<open>k\<close> (counted from 0,
  \<open>k < max_retries\<close>) returns \<open>r\<close>, \<^verbatim>\<open>add_fact\<close> returns \<open>r\<close> and that call is the last
  event: no further attempt, no further sleep. The result \<open>r\<close> is any value of the
  engine: \<^verbatim>\<open>None\<close>, a dictionary without \<^verbatim>\<open>results\<close>, an empty or a non-empty list.
\<close>

theorem add_fact_first_success:
  assumes "\<forall>j<k. raises (memory_add E fct (or_str uid (user_id self)) md
                      (attempt_world E fct (or_str uid (user_id self)) md (world st) j))"
    and "memory_add E fct (or_str uid (user_id self)) md
           (attempt_world E fct (or_str uid (user_id self)) md (world st) k) = (Inr r, w')"
    and "int k < max_retries"
  shows "add_fact self E fct uid md max_retries st =
     (r, \<lparr>world = w',
          trace = trace st
            @ concat (replicate k [Called (MemoryAdd fct (or_str uid (user_id self)) md) False,
                                   Slept 2])
            @ [Called (MemoryAdd fct (or_str uid (user_id self)) md) True]\<rparr>)"
proof -
  have "0 + int k \<le> max_retries - 1" using assms(3) by simp
  from add_fact_loop_first_success [OF assms(1) assms(2) this]
  show ?thesis by (simp add: add_fact_def py_range_def)
qed

theorem add_fact_first_success_witness:
  "add_fact (new_manager cfg0) env_second_add (py ''hello'') (Some (py ''bruce'')) None 3
          \<lparr>world = 0, trace = []\<rparr> =
     (Some \<lparr>results = Some []\<rparr>,
      \<lparr>world = 2,
       trace = [Called (MemoryAdd (py ''hello'') (py ''bruce'') None) False, Slept 2,
                Called (MemoryAdd (py ''hello'') (py ''bruce'') None) True]\<rparr>)"
  using add_fact_first_success [of 1 env_second_add "py ''hello''" "Some (py ''bruce'')"
      "new_manager cfg0" None "\<lparr>world = 0, trace = []\<rparr>" "Some \<lparr>results = Some []\<rparr>" 2 3]
  by (simp add: env_second_add_def env_down_def raises_def or_str_def py_def)

subsection \<open>The prompt of a chat\<close>

lemma resolve_prompt_total: "\<exists>p. fst (resolve_prompt E user context query st) = Inr p"
  by (auto simp: resolve_prompt_def Let_def perform_def split: prod.splits sum.splits)

text \<open>
  Claim C5. The prompt block always yields a string and never an exception. The prompt is
  the \<^verbatim>\<open>user_interaction\<close> template when that resolves; when it raises, the
  \<^verbatim>\<open>error_response\<close> template, resolved with the query and the message of the first
  exception; when that raises too, the fixed apology followed by the query itself.
\<close>

theorem resolve_prompt_never_raises:
  "(\<exists>p. fst (resolve_prompt E user context query st) = Inr p)
   \<and> (\<forall>p w1. get_prompt E ''chat'' ''user_interaction''
                [(''user_id'', user), (''context'', context), (''query'', query)] (world st)
              = (Inr p, w1)
        \<longrightarrow> fst (resolve_prompt E user context query st) = Inr p)
   \<and> (\<forall>e w1 p w2.
         get_prompt E ''chat'' ''user_interaction''
            [(''user_id'', user), (''context'', context), (''query'', query)] (world st)
              = (Inl e, w1)
         \<and> get_prompt E ''chat'' ''error_response''
            [(''query'', query), (''error_message'', str_exn e)] w1 = (Inr p, w2)
        \<longrightarrow> fst (resolve_prompt E user context query st) = Inr p)
   \<and> (\<forall>e w1 e2 w2.
         get_prompt E ''chat'' ''user_interaction''
            [(''user_id'', user), (''context'', context), (''query'', query)] (world st)
              = (Inl e, w1)
         \<and> get_prompt E ''chat'' ''error_response''
            [(''query'', query), (''error_message'', str_exn e)] w1 = (Inl e2, w2)
        \<longrightarrow> fst (resolve_prompt E user context query st)
              = Inr (py ''I apologize, but I'' @ [0x27]
                     @ py ''m having trouble processing your request: '' @ query))"
  using resolve_prompt_total [of E user "context" query st]
  by (auto simp: resolve_prompt_def Let_def perform_def)

theorem resolve_prompt_never_raises_witness:
  "fst (resolve_prompt env_down (py ''bruce'') (py ''ctx'') (py ''What do I like?'')
          \<lparr>world = (), trace = []\<rparr>)
     = Inr (py ''I apologize, but I'' @ [0x27]
            @ py ''m having trouble processing your request: What do I like?'')"
  using resolve_prompt_never_raises [of env_down "py ''bruce''" "py ''ctx''"
      "py ''What do I like?''" "\<lparr>world = (), trace = []\<rparr>"]
  by (simp add: env_down_def py_def)

subsection \<open>The generation client\<close>

lemma rev_split: "t = rev (dropWhile P (rev t)) @ rev (takeWhile P (rev t))"
  by (metis rev_append rev_rev_ident takeWhile_dropWhile_id)

lemma strip_decompose:
  "\<exists>a b. s = a @ strip s @ b \<and> list_all isspace a \<and> list_all isspace b"
proof -
  let ?t = "dropWhile isspace s"
  let ?a = "takeWhile isspace s"
  let ?b = "rev (takeWhile isspace (rev ?t))"
  have "s = ?a @ ?t" by simp
  moreover have "?t = strip s @ ?b"
    unfolding strip_def by (rule rev_split)
  ultimately have "s = ?a @ strip s @ ?b" by simp
  moreover have "list_all isspace ?a"
    by (auto simp: list_all_iff dest: set_takeWhileD)
  moreover have "list_all isspace ?b"
    by (auto simp: list_all_iff dest: set_takeWhileD)
  ultimately show ?thesis by blast
qed

lemma strip_ends:
  "strip s \<noteq> [] \<Longrightarrow> \<not> isspace (hd (strip s)) \<and> \<not> isspace (last (strip s))"
proof -
  assume ne: "strip s \<noteq> []"
  let ?t = "dropWhile isspace s"
  let ?u = "dropWhile isspace (rev ?t)"
  have u: "?u \<noteq> []" using ne by (simp add: strip_def)
  then have hdu: "\<not> isspace (hd ?u)" by (metis hd_dropWhile)
  have l: "last (strip s) = hd ?u" using u by (simp add: strip_def last_rev)
  have t: "?t \<noteq> []"
  proof
    assume "?t = []"
    then have "?u = []" by (simp only: rev.simps dropWhile.simps)
    with u show False by simp
  qed
  then have hdt: "\<not> isspace (hd ?t)" by (metis hd_dropWhile)
  have "?t = strip s @ rev (takeWhile isspace (rev ?t))"
    unfolding strip_def by (rule rev_split)
  then have "hd ?t = hd (strip s)" using ne by (metis hd_append2)
  then show ?thesis using l hdu hdt by simp
qed

lemma call_ollama_api_sent:
  "build_request self prompt = Inr (url, pl, timeout) \<Longrightarrow>
   requests_post E url pl timeout (world st) = (out, w') \<Longrightarrow>
   call_ollama_api self E prompt st =
     (let st' = \<lparr>world = w', trace = trace st @ [Called (RequestsPost url pl timeout) (returned out)]\<rparr>
      in case out of
           Inl e \<Rightarrow> (Inl e, st')
         | Inr resp \<Rightarrow>
             (case raise_for_status resp of
                Inl e \<Rightarrow> (Inl e, st')
              | Inr u \<Rightarrow>
                  (case json resp of
                     Inl e \<Rightarrow> (Inl e, st')
                   | Inr result \<Rightarrow>
                       (case response result of
                          Some r \<Rightarrow> (Inr (strip r), st')
                        | None \<Rightarrow> (Inr (py ''Sorry, I couldn'' @ [0x27]
                                         @ py ''t generate a response.''), st')))))"
  by (simp add: call_ollama_api_def perform_def Let_def split: sum.splits)

text \<open>
  Claim C6, as the program has it. Once the request is built and sent: a response whose
  status is not from 400 to 599 (every 2xx among them) and whose JSON body has a
  \<^verbatim>\<open>response\<close> field gives that text stripped, that is the text without a leading and
  a trailing run of whitespace; without the field it gives the canned sentence; a status
  from 400 to 599 raises the \<^verbatim>\<open>HTTPError\<close> of that response and a failure of the
  transport raises its exception, both to the caller.
\<close>

theorem call_ollama_api_contract:
  assumes "build_request self prompt = Inr (url, pl, timeout)"
  shows "(\<forall>resp w' body txt.
            requests_post E url pl timeout (world st) = (Inr resp, w')
            \<and> \<not> (400 \<le> status_code resp \<and> status_code resp < 600)
            \<and> json resp = Inr body \<and> response body = Some txt
          \<longrightarrow> fst (call_ollama_api self E prompt st) = Inr (strip txt)
              \<and> (\<exists>a b. txt = a @ strip txt @ b \<and> list_all isspace a \<and> list_all isspace b)
              \<and> (strip txt \<noteq> []
                   \<longrightarrow> \<not> isspace (hd (strip txt)) \<and> \<not> isspace (last (strip txt))))
       \<and> (\<forall>resp w' body.
            requests_post E url pl timeout (world st) = (Inr resp, w')
            \<and> \<not> (400 \<le> status_code resp \<and> status_code resp < 600)
            \<and> json resp = Inr body \<and> response body = None
          \<longrightarrow> fst (call_ollama_api self E prompt st)
                = Inr (py ''Sorry, I couldn'' @ [0x27] @ py ''t generate a response.''))
       \<and> (\<forall>resp w'.
            requests_post E url pl timeout (world st) = (Inr resp, w')
            \<and> 400 \<le> status_code resp \<and> status_code resp < 600
          \<longrightarrow> fst (call_ollama_api self E prompt st)
                = Inl (RequestException (http_error_msg resp)))
       \<and> (\<forall>e w'.
            requests_post E url pl timeout (world st) = (Inl e, w')
          \<longrightarrow> fst (call_ollama_api self E prompt st) = Inl e)"
  using strip_decompose strip_ends
  by (auto simp: call_ollama_api_sent [OF assms] raise_for_status_def Let_def)

theorem call_ollama_api_contract_witness:
  "fst (call_ollama_api (new_manager cfg0) env_ok (py ''What do I like?'')
          \<lparr>world = (), trace = []\<rparr>) = Inr (py ''You like pizza.'')"
  using call_ollama_api_contract [of "new_manager cfg0" "py ''What do I like?''"
      "py ''http://localhost:11434'' @ py ''/api/generate''"
      "\<lparr>pl_model = py ''llama3'', pl_prompt = py ''What do I like?'', pl_stream = False,
         pl_options = \<lparr>opt_temperature = 7 / 10, opt_num_predict = 2000\<rparr>\<rparr>"
      60 env_ok "\<lparr>world = (), trace = []\<rparr>"]
  by (simp add: build_request_def new_manager_def cfg0_def env_ok_def env_down_def resp_ok_def
      strip_def isspace_def py_def)

text \<open>
  Claim C6, as stated, fails for a status that is neither 2xx nor an error for
  \<^verbatim>\<open>raise_for_status\<close>: the response 300 with a JSON body is read like a success.
\<close>

theorem call_ollama_api_non2xx_counterexample:
  "\<not> (200 \<le> status_code resp_300 \<and> status_code resp_300 < 300)
   \<and> requests_post env_300 (py ''http://localhost:11434/api/generate'')
        \<lparr>pl_model = py ''llama3'', pl_prompt = py ''q'', pl_stream = False,
         pl_options = \<lparr>opt_temperature = 7 / 10, opt_num_predict = 2000\<rparr>\<rparr> 60 ()
       = (Inr resp_300, ())
   \<and> call_ollama_api (new_manager cfg0) env_300 (py ''q'') \<lparr>world = (), trace = []\<rparr>
       = (Inr (py ''hi''),
          \<lparr>world = (),
           trace = [Called (RequestsPost (py ''http://localhost:11434/api/generate'')
                      \<lparr>pl_model = py ''llama3'', pl_prompt = py ''q'', pl_stream = False,
                       pl_options = \<lparr>opt_temperature = 7 / 10, opt_num_predict = 2000\<rparr>\<rparr> 60)
                    True]\<rparr>)"
  by (simp add: call_ollama_api_def build_request_def raise_for_status_def perform_def
      returned_def new_manager_def cfg0_def env_300_def env_down_def resp_300_def
      strip_def isspace_def py_def)

subsection \<open>The failure boundary of chat\<close>

lemma call_ollama_api_post_fails:
  "\<forall>url pl t w. raises (requests_post E url pl t w) \<Longrightarrow>
   \<exists>e. fst (call_ollama_api self E prompt st) = Inl e"
proof (cases "build_request self prompt")
  case (Inl e)
  then show ?thesis by (simp add: call_ollama_api_def)
next
  case (Inr req)
  assume a: "\<forall>url pl t w. raises (requests_post E url pl t w)"
  obtain url pl t where req: "req = (url, pl, t)" by (cases req) auto
  obtain out w' where p: "requests_post E url pl t (world st) = (out, w')"
    by (cases "requests_post E url pl t (world st)") auto
  have "raises (out, w')" using a p by metis
  then obtain e where "out = Inl e" by (cases out) (auto simp: raises_def)
  then show ?thesis
    using call_ollama_api_sent [of self prompt url pl t E st out w'] Inr req p
    by (simp add: Let_def)
qed

lemma chat_total: "\<exists>answer. fst (chat self E query uid max_ctx st) = Inr answer"
  by (simp add: chat_def Let_def split: prod.splits sum.splits)

text \<open>
  Claim C1. For every query, user id and \<open>max_context_memories\<close>, \<^verbatim>\<open>chat\<close> returns a
  string and raises nothing. An exception \<open>e\<close> of the block under its \<^verbatim>\<open>try\<close> (search,
  context, prompt, generation), in particular one that the generation client raises, is
  turned into the string \<^verbatim>\<open>Sorry, I encountered an error: \<close> followed by \<^verbatim>\<open>str(e)\<close>;
  so when the HTTP call fails, \<^verbatim>\<open>chat\<close> returns such a string. (Exceptions here are the
  subclasses of \<^verbatim>\<open>Exception\<close>.)
\<close>

theorem chat_never_raises:
  "(\<exists>answer. fst (chat self E query uid max_ctx st) = Inr answer)
   \<and> (\<forall>e. fst (chat_try self E query (or_str uid (user_id self))
                (or_int max_ctx (config_max_context_memories (config self))) st) = Inl e
        \<longrightarrow> fst (chat self E query uid max_ctx st)
              = Inr (py ''Sorry, I encountered an error: '' @ str_exn e))
   \<and> (\<forall>memories st1 prompt st2 e.
         search_memories self E query (Some (or_str uid (user_id self)))
            (or_int max_ctx (config_max_context_memories (config self))) st = (memories, st1)
         \<and> resolve_prompt E (or_str uid (user_id self))
              (format_context (or_str uid (user_id self)) memories) query st1 = (Inr prompt, st2)
         \<and> fst (call_ollama_api self E prompt st2) = Inl e
        \<longrightarrow> fst (chat self E query uid max_ctx st)
              = Inr (py ''Sorry, I encountered an error: '' @ str_exn e))
   \<and> ((\<forall>url pl t w. raises (requests_post E url pl t w))
        \<longrightarrow> (\<exists>e. fst (chat self E query uid max_ctx st)
                   = Inr (py ''Sorry, I encountered an error: '' @ str_exn e)))"
proof (intro conjI allI impI)
  show "\<exists>answer. fst (chat self E query uid max_ctx st) = Inr answer" by (rule chat_total)
next
  fix e
  assume "fst (chat_try self E query (or_str uid (user_id self))
                (or_int max_ctx (config_max_context_memories (config self))) st) = Inl e"
  then show "fst (chat self E query uid max_ctx st)
              = Inr (py ''Sorry, I encountered an error: '' @ str_exn e)"
    by (cases "chat_try self E query (or_str uid (user_id self))
                (or_int max_ctx (config_max_context_memories (config self))) st")
       (simp add: chat_def Let_def)
next
  fix memories st1 prompt st2 e
  assume "search_memories self E query (Some (or_str uid (user_id self)))
            (or_int max_ctx (config_max_context_memories (config self))) st = (memories, st1)
         \<and> resolve_prompt E (or_str uid (user_id self))
              (format_context (or_str uid (user_id self)) memories) query st1 = (Inr prompt, st2)
         \<and> fst (call_ollama_api self E prompt st2) = Inl e"
  then show "fst (chat self E query uid max_ctx st)
              = Inr (py ''Sorry, I encountered an error: '' @ str_exn e)"
    by (cases "call_ollama_api self E prompt st2") (simp add: chat_def chat_try_def Let_def)
next
  assume a: "\<forall>url pl t w. raises (requests_post E url pl t w)"
  let ?user = "or_str uid (user_id self)"
  let ?lim = "or_int max_ctx (config_max_context_memories (config self))"
  obtain memories st1 where s: "search_memories self E query (Some ?user) ?lim st = (memories, st1)"
    by (cases "search_memories self E query (Some ?user) ?lim st") auto
  obtain rp st2 where r: "resolve_prompt E ?user (format_context ?user memories) query st1 = (rp, st2)"
    by (cases "resolve_prompt E ?user (format_context ?user memories) query st1") auto
  obtain prompt where rp: "rp = Inr prompt"
    using resolve_prompt_total [of E ?user "format_context ?user memories" query st1] r by auto
  obtain e where c: "fst (call_ollama_api self E prompt st2) = Inl e"
    using call_ollama_api_post_fails [OF a] by blast
  have "fst (chat self E query uid max_ctx st)
          = Inr (py ''Sorry, I encountered an error: '' @ str_exn e)"
    using s r rp c by (cases "call_ollama_api self E prompt st2") (simp add: chat_def chat_try_def Let_def)
  then show "\<exists>e. fst (chat self E query uid max_ctx st)
                   = Inr (py ''Sorry, I encountered an error: '' @ str_exn e)" by blast
qed

theorem chat_never_raises_witness:
  "fst (chat (new_manager cfg0) env_down (py ''What do I like?'') None None
          \<lparr>world = (), trace = []\<rparr>)
     = Inr (py ''Sorry, I encountered an error: connection refused'')"
  using chat_never_raises [of "new_manager cfg0" env_down "py ''What do I like?''" None None
      "\<lparr>world = (), trace = []\<rparr>"]
  by (simp add: chat_def chat_try_def search_memories_def resolve_prompt_def format_context_def
      call_ollama_api_def build_request_def perform_def returned_def has_results_def
      or_str_def or_int_def config_max_context_memories_def
      new_manager_def init_user_id_def cfg0_def env_down_def py_def Let_def)

subsection \<open>A failed search\<close>

lemma or_str_again: "or_str (Some (or_str uid d)) d = or_str uid d"
  by (simp add: or_str_def split: option.splits)

lemma search_memories_fails:
  "raises (memory_search E query (or_str uid (user_id self)) limit (world st)) \<Longrightarrow>
   search_memories self E query uid limit st =
     (None, \<lparr>world = snd (memory_search E query (or_str uid (user_id self)) limit (world st)),
             trace = trace st @ [Called (MemorySearch query (or_str uid (user_id self)) limit) False]\<rparr>)"
  using perform_raises [of "memory_search E query (or_str uid (user_id self)) limit" st
      "MemorySearch query (or_str uid (user_id self)) limit"]
  by (auto simp: search_memories_def Let_def)

lemma resolve_prompt_trace:
  "\<exists>b evs. trace (snd (resolve_prompt E user ctx query st)) =
     trace st @ Called (GetPrompt ''chat'' ''user_interaction''
                  [(''user_id'', user), (''context'', ctx), (''query'', query)]) b # evs"
  by (auto simp: resolve_prompt_def Let_def perform_def split: prod.splits sum.splits)

lemma call_ollama_api_trace:
  "\<exists>evs. trace (snd (call_ollama_api self E prompt st)) = trace st @ evs"
  by (auto simp: call_ollama_api_def Let_def perform_def
      split: prod.splits sum.splits option.splits)

lemma call_ollama_api_blank:
  "fst (call_ollama_api self E prompt st) = Inr [] \<longleftrightarrow>
     (\<exists>url pl t resp w' body reply.
        build_request self prompt = Inr (url, pl, t)
        \<and> requests_post E url pl t (world st) = (Inr resp, w')
        \<and> \<not> (400 \<le> status_code resp \<and> status_code resp < 600)
        \<and> json resp = Inr body \<and> response body = Some reply \<and> strip reply = [])"
proof (cases "build_request self prompt")
  case (Inl e)
  then show ?thesis by (simp add: call_ollama_api_def)
next
  case (Inr req)
  obtain url pl t where req: "req = (url, pl, t)" by (cases req) auto
  obtain out w' where p: "requests_post E url pl t (world st) = (out, w')"
    by (cases "requests_post E url pl t (world st)") auto
  note c = call_ollama_api_sent [of self prompt url pl t E st out w']
  show ?thesis
    using c Inr req p
    by (auto simp: Let_def raise_for_status_def py_def split: sum.splits option.splits if_splits)
qed

lemma call_ollama_api_reply:
  "build_request self prompt = Inr (url, pl, t) \<Longrightarrow>
   requests_post E url pl t (world st) = (Inr resp, w') \<Longrightarrow>
   \<not> (400 \<le> status_code resp \<and> status_code resp < 600) \<Longrightarrow>
   json resp = Inr body \<Longrightarrow> response body = Some reply \<Longrightarrow>
   fst (call_ollama_api self E prompt st) = Inr (strip reply)"
  using call_ollama_api_sent [of self prompt url pl t E st "Inr resp" w']
  by (simp add: Let_def raise_for_status_def)

lemma chat_try_after_failed_search:
  assumes "raises (memory_search E query (or_str uid (user_id self)) mx (world st))"
    and "resolve_prompt E (or_str uid (user_id self))
           (py ''No specific information available about '' @ or_str uid (user_id self) @ py ''.'')
           query
           \<lparr>world = snd (memory_search E query (or_str uid (user_id self)) mx (world st)),
            trace = trace st
              @ [Called (MemorySearch query (or_str uid (user_id self)) mx) False]\<rparr>
         = (Inr prompt, st2)"
  shows "chat_try self E query (or_str uid (user_id self)) mx st
           = call_ollama_api self E prompt st2"
proof -
  let ?user = "or_str uid (user_id self)"
  have s: "search_memories self E query (Some ?user) mx st
      = (None, \<lparr>world = snd (memory_search E query ?user mx (world st)),
                trace = trace st @ [Called (MemorySearch query ?user mx) False]\<rparr>)"
    using search_memories_fails [of E query "Some ?user" self mx st] assms(1)
    by (simp add: or_str_again)
  have f: "format_context ?user None
      = py ''No specific information available about '' @ ?user @ py ''.''"
    by (simp add: format_context_def has_results_def)
  show ?thesis using s f assms(2) by (simp add: chat_try_def Let_def)
qed

text \<open>
  Claim C7, as the program has it. When the search of the engine raises,
  \<^verbatim>\<open>search_memories\<close> returns \<^verbatim>\<open>None\<close> after that single call; and \<^verbatim>\<open>chat\<close>, whose
  search fails, still returns a string: it asks for the \<^verbatim>\<open>user_interaction\<close> prompt
  with the context \<^verbatim>\<open>No specific information available about {user_id}.\<close> and sends
  the prompt it gets to the generation endpoint. When the endpoint answers that request
  with a status outside 400 to 599 and a \<^verbatim>\<open>response\<close> text, the answer of \<^verbatim>\<open>chat\<close> is
  that text stripped; and the answer is empty exactly when that text is empty after
  stripping.
\<close>

theorem search_failure_degrades:
  "(raises (memory_search E query (or_str uid (user_id self)) limit (world st))
      \<longrightarrow> fst (search_memories self E query uid limit st) = None
          \<and> trace (snd (search_memories self E query uid limit st))
              = trace st @ [Called (MemorySearch query (or_str uid (user_id self)) limit) False])
   \<and> (raises (memory_search E query (or_str uid (user_id self))
                (or_int max_ctx (config_max_context_memories (config self))) (world st))
      \<longrightarrow> (\<exists>prompt st2 answer st3 b evs.
            resolve_prompt E (or_str uid (user_id self))
              (py ''No specific information available about ''
                 @ or_str uid (user_id self) @ py ''.'')
              query
              \<lparr>world = snd (memory_search E query (or_str uid (user_id self))
                              (or_int max_ctx (config_max_context_memories (config self)))
                              (world st)),
               trace = trace st
                 @ [Called (MemorySearch query (or_str uid (user_id self))
                      (or_int max_ctx (config_max_context_memories (config self)))) False]\<rparr>
              = (Inr prompt, st2)
            \<and> chat self E query uid max_ctx st = (Inr answer, st3)
            \<and> trace st3
                = trace st
                  @ Called (MemorySearch query (or_str uid (user_id self))
                      (or_int max_ctx (config_max_context_memories (config self)))) False
                  # Called (GetPrompt ''chat'' ''user_interaction''
                      [(''user_id'', or_str uid (user_id self)),
                       (''context'', py ''No specific information available about ''
                                      @ or_str uid (user_id self) @ py ''.''),
                       (''query'', query)]) b
                  # evs
            \<and> (\<forall>url pl t resp w' body reply.
                   build_request self prompt = Inr (url, pl, t)
                   \<and> requests_post E url pl t (world st2) = (Inr resp, w')
                   \<and> \<not> (400 \<le> status_code resp \<and> status_code resp < 600)
                   \<and> json resp = Inr body \<and> response body = Some reply
                 \<longrightarrow> answer = strip reply)
            \<and> (answer = [] \<longleftrightarrow>
                 (\<exists>url pl t resp w' body reply.
                    build_request self prompt = Inr (url, pl, t)
                    \<and> requests_post E url pl t (world st2) = (Inr resp, w')
                    \<and> \<not> (400 \<le> status_code resp \<and> status_code resp < 600)
                    \<and> json resp = Inr body \<and> response body = Some reply
                    \<and> strip reply = []))))"
proof (intro conjI impI)
  assume a: "raises (memory_search E query (or_str uid (user_id self)) limit (world st))"
  show "fst (search_memories self E query uid limit st) = None"
    by (simp add: search_memories_fails [OF a])
  show "trace (snd (search_memories self E query uid limit st))
              = trace st @ [Called (MemorySearch query (or_str uid (user_id self)) limit) False]"
    by (simp add: search_memories_fails [OF a])
next
  let ?user = "or_str uid (user_id self)"
  let ?mx = "or_int max_ctx (config_max_context_memories (config self))"
  let ?ctx = "py ''No specific information available about '' @ ?user @ py ''.''"
  let ?st1 = "\<lparr>world = snd (memory_search E query ?user ?mx (world st)),
               trace = trace st @ [Called (MemorySearch query ?user ?mx) False]\<rparr>"
  let ?blank = "\<lambda>prompt st2. \<exists>url pl t resp w' body reply.
                    build_request self prompt = Inr (url, pl, t)
                    \<and> requests_post E url pl t (world st2) = (Inr resp, w')
                    \<and> \<not> (400 \<le> status_code resp \<and> status_code resp < 600)
                    \<and> json resp = Inr body \<and> response body = Some reply
                    \<and> strip reply = []"
  assume a: "raises (memory_search E query ?user ?mx (world st))"
  obtain rp st2 where r0: "resolve_prompt E ?user ?ctx query ?st1 = (rp, st2)"
    by (cases "resolve_prompt E ?user ?ctx query ?st1") auto
  obtain prompt where rp: "rp = Inr prompt"
    using resolve_prompt_total [of E ?user ?ctx query ?st1] r0 by auto
  have r: "resolve_prompt E ?user ?ctx query ?st1 = (Inr prompt, st2)" using r0 rp by simp
  have c: "chat_try self E query ?user ?mx st = call_ollama_api self E prompt st2"
    using chat_try_after_failed_search [OF a r] .
  obtain b evs1 where t2: "trace st2 = trace ?st1
      @ Called (GetPrompt ''chat'' ''user_interaction''
          [(''user_id'', ?user), (''context'', ?ctx), (''query'', query)]) b # evs1"
    using resolve_prompt_trace [of E ?user ?ctx query ?st1] r by auto
  obtain out st3 where o: "call_ollama_api self E prompt st2 = (out, st3)"
    by (cases "call_ollama_api self E prompt st2") auto
  obtain evs2 where t3: "trace st3 = trace st2 @ evs2"
    using call_ollama_api_trace [of self E prompt st2] o by auto
  have tr: "trace st3 = trace st @ Called (MemorySearch query ?user ?mx) False
      # Called (GetPrompt ''chat'' ''user_interaction''
          [(''user_id'', ?user), (''context'', ?ctx), (''query'', query)]) b # (evs1 @ evs2)"
    using t2 t3 by simp
  define answer where "answer = (case out of Inl e \<Rightarrow> py ''Sorry, I encountered an error: '' @ str_exn e
                                  | Inr x \<Rightarrow> x)"
  have ch: "chat self E query uid max_ctx st = (Inr answer, st3)"
    using c o by (cases out) (simp_all add: chat_def Let_def answer_def)
  have rep: "answer = strip reply"
    if "build_request self prompt = Inr (url, pl, t)
        \<and> requests_post E url pl t (world st2) = (Inr resp, w')
        \<and> \<not> (400 \<le> status_code resp \<and> status_code resp < 600)
        \<and> json resp = Inr body \<and> response body = Some reply"
    for url pl t resp w' body reply
  proof -
    have "fst (call_ollama_api self E prompt st2) = Inr (strip reply)"
      using that call_ollama_api_reply [of self prompt url pl t E st2 resp w' body reply] by blast
    then show ?thesis using o by (simp add: answer_def)
  qed
  have bl: "answer = [] \<longleftrightarrow> ?blank prompt st2"
  proof (cases out)
    case (Inl e)
    have "answer \<noteq> []" using Inl by (simp add: answer_def py_def)
    moreover have "\<not> ?blank prompt st2"
      using call_ollama_api_blank [of self E prompt st2] o Inl by auto
    ultimately show ?thesis by blast
  next
    case (Inr x)
    then have "fst (call_ollama_api self E prompt st2) = Inr answer"
      using o by (simp add: answer_def)
    then show ?thesis using call_ollama_api_blank [of self E prompt st2] by auto
  qed
  show "\<exists>prompt st2 answer st3 b evs.
            resolve_prompt E ?user ?ctx query ?st1 = (Inr prompt, st2)
            \<and> chat self E query uid max_ctx st = (Inr answer, st3)
            \<and> trace st3
                = trace st
                  @ Called (MemorySearch query ?user ?mx) False
                  # Called (GetPrompt ''chat'' ''user_interaction''
                      [(''user_id'', ?user), (''context'', ?ctx), (''query'', query)]) b
                  # evs
            \<and> (\<forall>url pl t resp w' body reply.
                   build_request self prompt = Inr (url, pl, t)
                   \<and> requests_post E url pl t (world st2) = (Inr resp, w')
                   \<and> \<not> (400 \<le> status_code resp \<and> status_code resp < 600)
                   \<and> json resp = Inr body \<and> response body = Some reply
                 \<longrightarrow> answer = strip reply)
            \<and> (answer = [] \<longleftrightarrow> ?blank prompt st2)"
    using r ch tr rep bl
    by (intro exI [of _ prompt] exI [of _ st2] exI [of _ answer] exI [of _ st3]
          exI [of _ b] exI [of _ "evs1 @ evs2"]) blast
qed

theorem search_failure_degrades_witness:
  "fst (search_memories (new_manager cfg0) env_ok (py ''What do I like?'') None 5
          \<lparr>world = (), trace = []\<rparr>) = None
   \<and> trace (snd (search_memories (new_manager cfg0) env_ok (py ''What do I like?'') None 5
          \<lparr>world = (), trace = []\<rparr>))
       = [Called (MemorySearch (py ''What do I like?'') (py ''default'') 5) False]
   \<and> fst (chat (new_manager cfg0) env_ok (py ''What do I like?'') None None
          \<lparr>world = (), trace = []\<rparr>) = Inr (py ''You like pizza.'')"
  using search_failure_degrades [of env_ok "py ''What do I like?''" None "new_manager cfg0" 5
      "\<lparr>world = (), trace = []\<rparr>" None]
  by (simp add: chat_def chat_try_def search_memories_def resolve_prompt_def format_context_def
      call_ollama_api_def build_request_def raise_for_status_def perform_def returned_def
      has_results_def raises_def or_str_def or_int_def config_max_context_memories_def
      new_manager_def init_user_id_def cfg0_def env_ok_def resp_ok_def env_down_def
      strip_def isspace_def py_def Let_def)

text \<open>
  Claim C7, as stated, fails on the non-emptiness: with a failed search and an endpoint
  that answers with blanks, \<^verbatim>\<open>chat\<close> returns the empty string.
\<close>

theorem chat_blank_reply_counterexample:
  "raises (memory_search env_blank (py ''hi'') (py ''default'') 5 ())
   \<and> fst (search_memories (new_manager cfg0) env_blank (py ''hi'') None 5
            \<lparr>world = (), trace = []\<rparr>) = None
   \<and> fst (chat (new_manager cfg0) env_blank (py ''hi'') None None
            \<lparr>world = (), trace = []\<rparr>) = Inr []"
  by (simp add: chat_def chat_try_def search_memories_def resolve_prompt_def format_context_def
      call_ollama_api_def build_request_def raise_for_status_def perform_def returned_def
      has_results_def raises_def or_str_def or_int_def config_max_context_memories_def
      new_manager_def init_user_id_def cfg0_def env_blank_def resp_blank_def env_down_def
      strip_def isspace_def py_def Let_def)

subsection \<open>The limit of a search\<close>

text \<open>
  Claim C9. The engine's search returns at most as many records as the limit it is given
  (the contract of its interface). \<^verbatim>\<open>search_memories\<close> hands the requested limit to
  that search unchanged, in one call, and returns what the engine returns, unchanged. So
  for every query, user and state of the engine its result has at most \<open>limit\<close> records:
  at most 3 for the limit 3, however many memories match.
\<close>

theorem search_memories_forwards_limit:
  "(\<forall>found w'.
      memory_search E query (or_str uid (user_id self)) limit (world st) = (Inr found, w')
      \<longrightarrow> search_memories self E query uid limit st
            = (found, \<lparr>world = w',
                       trace = trace st
                         @ [Called (MemorySearch query (or_str uid (user_id self)) limit) True]\<rparr>))
   \<and> ((\<forall>q u n w d w' rs. memory_search E q u n w = (Inr (Some d), w') \<and> results d = Some rs
                          \<longrightarrow> int (length rs) \<le> n)
       \<longrightarrow> (\<forall>d rs. fst (search_memories self E query uid limit st) = Some d \<and> results d = Some rs
                  \<longrightarrow> int (length rs) \<le> limit))"
proof (intro conjI allI impI)
  fix found w'
  assume "memory_search E query (or_str uid (user_id self)) limit (world st) = (Inr found, w')"
  then show "search_memories self E query uid limit st
            = (found, \<lparr>world = w',
                       trace = trace st
                         @ [Called (MemorySearch query (or_str uid (user_id self)) limit) True]\<rparr>)"
    by (simp add: search_memories_def Let_def perform_returns split: option.splits)
next
  fix d rs
  assume h: "\<forall>q u n w d w' rs. memory_search E q u n w = (Inr (Some d), w') \<and> results d = Some rs
                          \<longrightarrow> int (length rs) \<le> n"
    and r: "fst (search_memories self E query uid limit st) = Some d \<and> results d = Some rs"
  obtain out w' where m: "memory_search E query (or_str uid (user_id self)) limit (world st) = (out, w')"
    by (cases "memory_search E query (or_str uid (user_id self)) limit (world st)") auto
  have "out = Inr (Some d)"
    using r m by (auto simp: search_memories_def Let_def perform_def split: sum.splits option.splits)
  then show "int (length rs) \<le> limit" using h m r by blast
qed

theorem search_memories_forwards_limit_witness:
  "search_memories (new_manager cfg0) env_bounded (py ''food'') (Some (py ''bruce'')) 3
      \<lparr>world = (), trace = []\<rparr>
     = (Some \<lparr>results = Some (take 3 four_records)\<rparr>,
        \<lparr>world = (), trace = [Called (MemorySearch (py ''food'') (py ''bruce'') 3) True]\<rparr>)
   \<and> length (results_of (fst (search_memories (new_manager cfg0) env_bounded (py ''food'')
        (Some (py ''bruce'')) 3 \<lparr>world = (), trace = []\<rparr>))) = 3"
proof -
  have h: "\<forall>q u n w d w' rs.
      memory_search env_bounded q u n w = (Inr (Some d), w') \<and> results d = Some rs
      \<longrightarrow> int (length rs) \<le> n"
    by (auto simp: env_bounded_def env_down_def split: if_splits)
  have m: "memory_search env_bounded (py ''food'') (or_str (Some (py ''bruce'')) (user_id (new_manager cfg0))) 3 ()
      = (Inr (Some \<lparr>results = Some (take 3 four_records)\<rparr>), ())"
    by (simp add: env_bounded_def env_down_def)
  show ?thesis
    using search_memories_forwards_limit [of env_bounded "py ''food''" "Some (py ''bruce'')"
        "new_manager cfg0" 3 "\<lparr>world = (), trace = []\<rparr>"] h m
    by (simp add: or_str_def py_def results_of_def four_records_def)
qed

subsection \<open>Defaults of falsy arguments\<close>

lemma or_str_falsy: "or_str (Some []) d = d" "or_str None d = d" "or_str (Some d) d = d"
  by (simp_all add: or_str_def)

lemma or_int_falsy: "or_int (Some 0) d = d" "or_int None d = d"
  by (simp_all add: or_int_def)

lemma search_memories_trace:
  "\<exists>b. trace (snd (search_memories self E query uid limit st))
        = trace st @ [Called (MemorySearch query (or_str uid (user_id self)) limit) b]"
  by (auto simp: search_memories_def Let_def perform_def split: prod.splits sum.splits option.splits)

lemma get_all_memories_trace:
  "\<exists>b. trace (snd (get_all_memories self E uid st))
        = trace st @ [Called (MemoryGetAll (or_str uid (user_id self))) b]"
  by (auto simp: get_all_memories_def Let_def perform_def split: prod.splits sum.splits option.splits)

lemma delete_loop_trace:
  "\<exists>evs. trace (snd (delete_loop E ms n st)) = trace st @ evs"
proof (induction ms arbitrary: n st)
  case Nil
  then show ?case by simp
next
  case (Cons m ms)
  obtain out st' where p: "perform (MemoryDelete (id_key m)) (memory_delete E (id_key m)) st = (out, st')"
    by (cases "perform (MemoryDelete (id_key m)) (memory_delete E (id_key m)) st") auto
  then have t: "\<exists>evs. trace st' = trace st @ evs"
    by (auto simp: perform_def split: prod.splits)
  show ?case
  proof (cases out)
    case (Inl e)
    then show ?thesis using p t Cons.IH [of n st'] by auto
  next
    case (Inr u)
    then show ?thesis using p t Cons.IH [of "n + 1" st'] by auto
  qed
qed

lemma reset_memories_trace:
  "\<exists>b evs. trace (snd (reset_memories self E uid st))
        = trace st @ Called (MemoryGetAll (or_str uid (user_id self))) b # evs"
proof -
  let ?user = "or_str uid (user_id self)"
  obtain all_memories st' where g: "get_all_memories self E (Some ?user) st = (all_memories, st')"
    by (cases "get_all_memories self E (Some ?user) st") auto
  obtain b where t: "trace st' = trace st @ [Called (MemoryGetAll ?user) b]"
    using get_all_memories_trace [of self E "Some ?user" st] g by (auto simp: or_str_again)
  obtain n st'' where d: "delete_loop E (results_of all_memories) 0 st' = (n, st'')"
    by (cases "delete_loop E (results_of all_memories) 0 st'") auto
  obtain evs where t2: "trace st'' = trace st' @ evs"
    using delete_loop_trace [of E "results_of all_memories" 0 st'] d by auto
  show ?thesis
    using g t d t2 by (auto simp: reset_memories_def reset_try_def Let_def)
qed

lemma chat_trace:
  "\<exists>b evs. trace (snd (chat self E query uid max_ctx st))
      = trace st @ Called (MemorySearch query (or_str uid (user_id self))
                     (or_int max_ctx (config_max_context_memories (config self)))) b # evs"
proof -
  let ?user = "or_str uid (user_id self)"
  let ?mx = "or_int max_ctx (config_max_context_memories (config self))"
  obtain memories st1 where s: "search_memories self E query (Some ?user) ?mx st = (memories, st1)"
    by (cases "search_memories self E query (Some ?user) ?mx st") auto
  obtain b where t1: "trace st1 = trace st @ [Called (MemorySearch query ?user ?mx) b]"
    using search_memories_trace [of self E query "Some ?user" ?mx st] s by (auto simp: or_str_again)
  obtain rp st2 where r: "resolve_prompt E ?user (format_context ?user memories) query st1 = (rp, st2)"
    by (cases "resolve_prompt E ?user (format_context ?user memories) query st1") auto
  obtain prompt where rp: "rp = Inr prompt"
    using resolve_prompt_total [of E ?user "format_context ?user memories" query st1] r by auto
  obtain evs1 where t2: "trace st2 = trace st1 @ evs1"
    using resolve_prompt_trace [of E ?user "format_context ?user memories" query st1] r by auto
  obtain out st3 where o: "call_ollama_api self E prompt st2 = (out, st3)"
    by (cases "call_ollama_api self E prompt st2") auto
  obtain evs2 where t3: "trace st3 = trace st2 @ evs2"
    using call_ollama_api_trace [of self E prompt st2] o by auto
  have "trace (snd (chat self E query uid max_ctx st)) = trace st3"
    using s r rp o by (cases out) (simp_all add: chat_def chat_try_def Let_def)
  then show ?thesis using t1 t2 t3 by auto
qed

lemma add_fact_trace:
  "0 < n \<Longrightarrow> \<exists>b evs. trace (snd (add_fact self E fct uid md n st))
      = trace st @ Called (MemoryAdd fct (or_str uid (user_id self)) md) b # evs"
proof -
  assume n: "0 < n"
  let ?user = "or_str uid (user_id self)"
  have u: "[0..n - 1] = 0 # [0 + 1..n - 1]" using n by (simp add: upto_rec1)
  have loop: "\<exists>evs. trace (snd (add_fact_loop E fct ?user md n xs st')) = trace st' @ evs" for xs st'
  proof (induction xs arbitrary: st')
    case Nil
    then show ?case by simp
  next
    case (Cons a xs)
    obtain out st2 where p: "perform (MemoryAdd fct ?user md) (memory_add E fct ?user md) st' = (out, st2)"
      by (cases "perform (MemoryAdd fct ?user md) (memory_add E fct ?user md) st'") auto
    then have t: "\<exists>evs. trace st2 = trace st' @ evs"
      by (auto simp: perform_def split: prod.splits)
    show ?case
    proof (cases out)
      case (Inl e)
      then show ?thesis using p t Cons.IH [of "sleep E 2 st2"] by (auto simp: sleep_def)
    next
      case (Inr r)
      then show ?thesis using p t by auto
    qed
  qed
  obtain out st2 where p: "perform (MemoryAdd fct ?user md) (memory_add E fct ?user md) st = (out, st2)"
    by (cases "perform (MemoryAdd fct ?user md) (memory_add E fct ?user md) st") auto
  then have t: "\<exists>b. trace st2 = trace st @ [Called (MemoryAdd fct ?user md) b]"
    by (auto simp: perform_def split: prod.splits)
  show ?thesis
  proof (cases out)
    case (Inl e)
    then show ?thesis
      using p t loop [of "[0 + 1..n - 1]" "sleep E 2 st2"]
      by (auto simp: add_fact_def py_range_def u sleep_def)
  next
    case (Inr r)
    then show ?thesis using p t by (auto simp: add_fact_def py_range_def u)
  qed
qed

text \<open>
  Claim C10. In \<^verbatim>\<open>add_fact\<close>, \<^verbatim>\<open>search_memories\<close>, \<^verbatim>\<open>get_all_memories\<close>,
  \<^verbatim>\<open>reset_memories\<close> and \<^verbatim>\<open>chat\<close> an empty string as user id behaves as \<^verbatim>\<open>None\<close>:
  the engine is called with the default user id of the manager. In \<^verbatim>\<open>chat\<close> a
  \<open>max_context_memories\<close> of 0 behaves as \<^verbatim>\<open>None\<close>: the search is made with the value of
  the configuration, which is 5 when the configuration gives none.
\<close>

theorem falsy_arguments_default:
  "add_fact self E fct (Some []) md n st = add_fact self E fct None md n st
   \<and> search_memories self E query (Some []) limit st = search_memories self E query None limit st
   \<and> get_all_memories self E (Some []) st = get_all_memories self E None st
   \<and> reset_memories self E (Some []) st = reset_memories self E None st
   \<and> chat self E query (Some []) max_ctx st = chat self E query None max_ctx st
   \<and> chat self E query uid (Some 0) st = chat self E query uid None st
   \<and> (0 < n \<longrightarrow> (\<exists>b evs. trace (snd (add_fact self E fct (Some []) md n st))
          = trace st @ Called (MemoryAdd fct (user_id self) md) b # evs))
   \<and> (\<exists>b. trace (snd (search_memories self E query (Some []) limit st))
          = trace st @ [Called (MemorySearch query (user_id self) limit) b])
   \<and> (\<exists>b. trace (snd (get_all_memories self E (Some []) st))
          = trace st @ [Called (MemoryGetAll (user_id self)) b])
   \<and> (\<exists>b evs. trace (snd (reset_memories self E (Some []) st))
          = trace st @ Called (MemoryGetAll (user_id self)) b # evs)
   \<and> (\<exists>b evs. trace (snd (chat self E query (Some []) (Some 0) st))
          = trace st @ Called (MemorySearch query (user_id self)
                         (config_max_context_memories (config self))) b # evs)
   \<and> (chat_opts (config self) = None \<longrightarrow> config_max_context_memories (config self) = 5)
   \<and> (\<forall>c. chat_opts (config self) = Some c
         \<longrightarrow> config_max_context_memories (config self)
               = (case max_context_memories c of None \<Rightarrow> 5 | Some k \<Rightarrow> k))"
proof (intro conjI impI allI)
  show "add_fact self E fct (Some []) md n st = add_fact self E fct None md n st"
    by (simp add: add_fact_def or_str_falsy)
  show "search_memories self E query (Some []) limit st = search_memories self E query None limit st"
    by (simp add: search_memories_def or_str_falsy)
  show "get_all_memories self E (Some []) st = get_all_memories self E None st"
    by (simp add: get_all_memories_def or_str_falsy)
  show "reset_memories self E (Some []) st = reset_memories self E None st"
    by (simp add: reset_memories_def or_str_falsy)
  show "chat self E query (Some []) max_ctx st = chat self E query None max_ctx st"
    by (simp add: chat_def or_str_falsy)
  show "chat self E query uid (Some 0) st = chat self E query uid None st"
    by (simp add: chat_def or_int_falsy)
  show "\<exists>b evs. trace (snd (add_fact self E fct (Some []) md n st))
          = trace st @ Called (MemoryAdd fct (user_id self) md) b # evs" if "0 < n"
    using add_fact_trace [OF that, of self E fct "Some []" md st] by (simp add: or_str_falsy)
  show "\<exists>b. trace (snd (search_memories self E query (Some []) limit st))
          = trace st @ [Called (MemorySearch query (user_id self) limit) b]"
    using search_memories_trace [of self E query "Some []" limit st] by (simp add: or_str_falsy)
  show "\<exists>b. trace (snd (get_all_memories self E (Some []) st))
          = trace st @ [Called (MemoryGetAll (user_id self)) b]"
    using get_all_memories_trace [of self E "Some []" st] by (simp add: or_str_falsy)
  show "\<exists>b evs. trace (snd (reset_memories self E (Some []) st))
          = trace st @ Called (MemoryGetAll (user_id self)) b # evs"
    using reset_memories_trace [of self E "Some []" st] by (simp add: or_str_falsy)
  show "\<exists>b evs. trace (snd (chat self E query (Some []) (Some 0) st))
          = trace st @ Called (MemorySearch query (user_id self)
                         (config_max_context_memories (config self))) b # evs"
    using chat_trace [of self E query "Some []" "Some 0" st] by (simp add: or_str_falsy or_int_falsy)
  show "config_max_context_memories (config self) = 5" if "chat_opts (config self) = None"
    using that by (simp add: config_max_context_memories_def)
  show "config_max_context_memories (config self)
               = (case max_context_memories c of None \<Rightarrow> 5 | Some k \<Rightarrow> k)"
    if "chat_opts (config self) = Some c" for c
    using that by (simp add: config_max_context_memories_def)
qed

theorem falsy_arguments_default_witness:
  "trace (snd (search_memories (new_manager cfg0) env_down (py ''food'') (Some []) 3
          \<lparr>world = (), trace = []\<rparr>))
     = [Called (MemorySearch (py ''food'') (py ''default'') 3) False]
   \<and> hd (trace (snd (chat (new_manager cfg0) env_down (py ''food'') (Some []) (Some 0)
          \<lparr>world = (), trace = []\<rparr>)))
     = Called (MemorySearch (py ''food'') (py ''default'') 5) False
   \<and> hd (trace (snd (add_fact (new_manager cfg0) env_down (py ''Likes tea'') (Some []) None 3
          \<lparr>world = (), trace = []\<rparr>)))
     = Called (MemoryAdd (py ''Likes tea'') (py ''default'') None) False"
  using falsy_arguments_default [of "new_manager cfg0" env_down "py ''Likes tea''" None 3
      "\<lparr>world = (), trace = []\<rparr>" "py ''food''" 3 "Some 0" None]
  by (simp add: chat_def chat_try_def search_memories_def resolve_prompt_def format_context_def
      call_ollama_api_def build_request_def perform_def returned_def has_results_def
      add_fact_def py_range_def upto_rec1 sleep_def
      or_str_def or_int_def config_max_context_memories_def
      new_manager_def init_user_id_def cfg0_def env_down_def py_def Let_def)

subsection \<open>Resetting the memories of a user\<close>

lemma get_all_memories_returns:
  "memory_get_all E (or_str uid (user_id self)) (world st) = (out, w') \<Longrightarrow>
   get_all_memories self E uid st =
     ((case out of Inl e \<Rightarrow> None | Inr found \<Rightarrow> found),
      \<lparr>world = w', trace = trace st @ [Called (MemoryGetAll (or_str uid (user_id self))) (returned out)]\<rparr>)"
  by (auto simp: get_all_memories_def Let_def perform_def split: sum.splits option.splits)

lemma delete_loop_count:
  "\<exists>evs. trace (snd (delete_loop E ms n st)) = trace st @ evs
      \<and> length evs = length ms
      \<and> map fst (delete_calls evs) = map id_key ms
      \<and> fst (delete_loop E ms n st) = n + int (length (filter snd (delete_calls evs)))"
proof (induction ms arbitrary: n st)
  case Nil
  then show ?case by (simp add: delete_calls_def)
next
  case (Cons m ms)
  obtain out w' where f: "memory_delete E (id_key m) (world st) = (out, w')"
    by (cases "memory_delete E (id_key m) (world st)") auto
  let ?st' = "\<lparr>world = w', trace = trace st @ [Called (MemoryDelete (id_key m)) (returned out)]\<rparr>"
  have p: "perform (MemoryDelete (id_key m)) (memory_delete E (id_key m)) st = (out, ?st')"
    using f by (simp add: perform_def)
  show ?case
  proof (cases out)
    case (Inl e)
    obtain evs where e: "trace (snd (delete_loop E ms n ?st')) = trace ?st' @ evs"
      "length evs = length ms" "map fst (delete_calls evs) = map id_key ms"
      "fst (delete_loop E ms n ?st') = n + int (length (filter snd (delete_calls evs)))"
      using Cons.IH [of n ?st'] by blast
    show ?thesis
      using p Inl e
      by (intro exI [of _ "Called (MemoryDelete (id_key m)) False # evs"])
         (simp add: delete_calls_def returned_def)
  next
    case (Inr u)
    obtain evs where e: "trace (snd (delete_loop E ms (n + 1) ?st')) = trace ?st' @ evs"
      "length evs = length ms" "map fst (delete_calls evs) = map id_key ms"
      "fst (delete_loop E ms (n + 1) ?st') = n + 1 + int (length (filter snd (delete_calls evs)))"
      using Cons.IH [of "n + 1" ?st'] by blast
    show ?thesis
      using p Inr e
      by (intro exI [of _ "Called (MemoryDelete (id_key m)) True # evs"])
         (simp add: delete_calls_def returned_def)
  qed
qed

lemma delete_loop_reliable:
  assumes "reliable_engine E contents"
  shows "fst (delete_loop E ms n st) = n + int (length ms)
     \<and> (\<forall>u. contents (world (snd (delete_loop E ms n st))) u
             = filter (\<lambda>m. id_key m \<notin> id_key ` set ms) (contents (world st) u))"
proof (induction ms arbitrary: n st)
  case Nil
  then show ?case by simp
next
  case (Cons m ms)
  obtain w' where f: "memory_delete E (id_key m) (world st) = (Inr (), w')"
    and c: "\<forall>u. contents w' u = filter (\<lambda>x. id_key x \<noteq> id_key m) (contents (world st) u)"
    using assms unfolding reliable_engine_def by blast
  let ?st' = "\<lparr>world = w', trace = trace st @ [Called (MemoryDelete (id_key m)) True]\<rparr>"
  have p: "perform (MemoryDelete (id_key m)) (memory_delete E (id_key m)) st = (Inr (), ?st')"
    using f by (simp add: perform_returns)
  have "\<forall>u. filter (\<lambda>x. id_key x \<notin> id_key ` set ms) (contents w' u)
      = filter (\<lambda>x. id_key x \<notin> id_key ` set (m # ms)) (contents (world st) u)"
    using c by (auto intro: filter_cong)
  then show ?case using p Cons.IH [of "n + 1" ?st'] by simp
qed


lemma reset_memories_unfold:
  assumes "memory_get_all E (or_str uid (user_id self)) (world st) = (out, w')"
  shows "reset_memories self E uid st =
     (let st' = \<lparr>world = w', trace = trace st
                   @ [Called (MemoryGetAll (or_str uid (user_id self))) (returned out)]\<rparr>;
          found = (case out of Inl e \<Rightarrow> None | Inr d \<Rightarrow> d)
      in if \<not> has_results found then (Inr 0, st')
         else (Inr (fst (delete_loop E (results_of found) 0 st')),
               snd (delete_loop E (results_of found) 0 st')))"
proof -
  have "memory_get_all E (or_str (Some (or_str uid (user_id self))) (user_id self)) (world st)
      = (out, w')"
    using assms by (simp add: or_str_again)
  from get_all_memories_returns [OF this]
  show ?thesis
    by (simp add: reset_memories_def reset_try_def Let_def or_str_again split: prod.splits)
qed

lemma reset_memories_total: "\<exists>n. fst (reset_memories self E uid st) = Inr n"
  by (simp add: reset_memories_def Let_def split: prod.splits sum.splits)

lemma reset_memories_listed:
  assumes "memory_get_all E (or_str uid (user_id self)) (world st)
             = (Inr (Some \<lparr>results = Some rs\<rparr>), w')"
  shows "\<exists>evs. trace (snd (reset_memories self E uid st))
                 = trace st @ Called (MemoryGetAll (or_str uid (user_id self))) True # evs
     \<and> length evs = length rs
     \<and> map fst (delete_calls evs) = map id_key rs
     \<and> fst (reset_memories self E uid st) = Inr (int (length (filter snd (delete_calls evs))))"
proof (cases "rs = []")
  case True
  then show ?thesis
    using reset_memories_unfold [OF assms]
    by (simp add: Let_def has_results_def returned_def delete_calls_def)
next
  case False
  let ?st' = "\<lparr>world = w', trace = trace st
                   @ [Called (MemoryGetAll (or_str uid (user_id self))) True]\<rparr>"
  obtain evs where e: "trace (snd (delete_loop E rs 0 ?st')) = trace ?st' @ evs"
      "length evs = length rs" "map fst (delete_calls evs) = map id_key rs"
      "fst (delete_loop E rs 0 ?st') = 0 + int (length (filter snd (delete_calls evs)))"
    using delete_loop_count [of E rs 0 ?st'] by blast
  show ?thesis
    using reset_memories_unfold [OF assms] False e
    by (intro exI [of _ evs])
       (simp add: Let_def has_results_def results_of_def returned_def)
qed

lemma reset_memories_reliable:
  assumes "reliable_engine E contents"
  shows "fst (reset_memories self E uid st)
           = Inr (int (length (contents (world st) (or_str uid (user_id self)))))
     \<and> contents (world (snd (reset_memories self E uid st))) (or_str uid (user_id self)) = []"
proof -
  let ?user = "or_str uid (user_id self)"
  let ?rs = "contents (world st) ?user"
  have g: "memory_get_all E ?user (world st) = (Inr (Some \<lparr>results = Some ?rs\<rparr>), world st)"
    using assms unfolding reliable_engine_def by blast
  let ?st' = "\<lparr>world = world st, trace = trace st @ [Called (MemoryGetAll ?user) True]\<rparr>"
  show ?thesis
  proof (cases "?rs = []")
    case True
    then show ?thesis
      using reset_memories_unfold [OF g] by (simp add: Let_def has_results_def)
  next
    case False
    have d: "fst (delete_loop E ?rs 0 ?st') = 0 + int (length ?rs)"
      and c: "contents (world (snd (delete_loop E ?rs 0 ?st'))) ?user
             = filter (\<lambda>m. id_key m \<notin> id_key ` set ?rs) (contents (world ?st') ?user)"
      using delete_loop_reliable [OF assms, of ?rs 0 ?st'] by auto
    have "filter (\<lambda>m. id_key m \<notin> id_key ` set ?rs) ?rs = []"
      by (simp add: filter_empty_conv)
    then show ?thesis
      using reset_memories_unfold [OF g] False d c
      by (simp add: Let_def has_results_def results_of_def returned_def)
  qed
qed

lemma env_store_reliable: "reliable_engine env_store store_contents"
  by (auto simp: reliable_engine_def env_store_def env_down_def store_contents_def filter_map comp_def
      intro!: arg_cong [of _ _ "map snd"] filter_cong)

text \<open>
  Claim C8. \<^verbatim>\<open>reset_memories\<close> never raises. When the listing returns the records
  \<open>rs\<close>, it calls \<^verbatim>\<open>memory.delete\<close> once for each record of \<open>rs\<close>, in order, whether or not
  earlier deletes raised, and returns the number of those calls that returned. It
  returns 0, without any delete, when the listing is \<^verbatim>\<open>None\<close>, lacks \<^verbatim>\<open>results\<close> or
  is empty, and when the listing raises. On a reliable engine and a user with memories it
  returns their number, which is positive, and a second call right after returns 0.
\<close>

theorem reset_memories_counts:
  "(\<exists>n. fst (reset_memories self E uid st) = Inr n)
   \<and> (\<forall>rs w'.
        memory_get_all E (or_str uid (user_id self)) (world st)
          = (Inr (Some \<lparr>results = Some rs\<rparr>), w')
        \<longrightarrow> (\<exists>evs. trace (snd (reset_memories self E uid st))
                     = trace st @ Called (MemoryGetAll (or_str uid (user_id self))) True # evs
                 \<and> length evs = length rs
                 \<and> map fst (delete_calls evs) = map id_key rs
                 \<and> fst (reset_memories self E uid st)
                     = Inr (int (length (filter snd (delete_calls evs))))))
   \<and> (\<forall>found w'.
        memory_get_all E (or_str uid (user_id self)) (world st) = (Inr found, w')
        \<and> (found = None \<or> found = Some \<lparr>results = None\<rparr> \<or> found = Some \<lparr>results = Some []\<rparr>)
        \<longrightarrow> fst (reset_memories self E uid st) = Inr 0
            \<and> trace (snd (reset_memories self E uid st))
                = trace st @ [Called (MemoryGetAll (or_str uid (user_id self))) True])
   \<and> (raises (memory_get_all E (or_str uid (user_id self)) (world st))
        \<longrightarrow> fst (reset_memories self E uid st) = Inr 0
            \<and> trace (snd (reset_memories self E uid st))
                = trace st @ [Called (MemoryGetAll (or_str uid (user_id self))) False])
   \<and> (\<forall>contents.
        reliable_engine E contents \<and> contents (world st) (or_str uid (user_id self)) \<noteq> []
        \<longrightarrow> fst (reset_memories self E uid st)
              = Inr (int (length (contents (world st) (or_str uid (user_id self)))))
            \<and> 0 < length (contents (world st) (or_str uid (user_id self)))
            \<and> fst (reset_memories self E uid (snd (reset_memories self E uid st))) = Inr 0)"
proof (intro conjI allI impI)
  show "\<exists>n. fst (reset_memories self E uid st) = Inr n" by (rule reset_memories_total)
next
  fix rs w'
  assume "memory_get_all E (or_str uid (user_id self)) (world st)
          = (Inr (Some \<lparr>results = Some rs\<rparr>), w')"
  then show "\<exists>evs. trace (snd (reset_memories self E uid st))
                     = trace st @ Called (MemoryGetAll (or_str uid (user_id self))) True # evs
                 \<and> length evs = length rs
                 \<and> map fst (delete_calls evs) = map id_key rs
                 \<and> fst (reset_memories self E uid st)
                     = Inr (int (length (filter snd (delete_calls evs))))"
    by (rule reset_memories_listed)
next
  fix found w'
  assume a: "memory_get_all E (or_str uid (user_id self)) (world st) = (Inr found, w')
        \<and> (found = None \<or> found = Some \<lparr>results = None\<rparr> \<or> found = Some \<lparr>results = Some []\<rparr>)"
  then have u: "reset_memories self E uid st =
      (Inr 0, \<lparr>world = w', trace = trace st
                   @ [Called (MemoryGetAll (or_str uid (user_id self))) True]\<rparr>)"
    using reset_memories_unfold [of E uid self st "Inr found" w']
    by (auto simp: Let_def has_results_def returned_def)
  show "fst (reset_memories self E uid st) = Inr 0" using u by simp
  show "trace (snd (reset_memories self E uid st))
                = trace st @ [Called (MemoryGetAll (or_str uid (user_id self))) True]"
    using u by simp
next
  assume a: "raises (memory_get_all E (or_str uid (user_id self)) (world st))"
  obtain out w' where g: "memory_get_all E (or_str uid (user_id self)) (world st) = (out, w')"
    by (cases "memory_get_all E (or_str uid (user_id self)) (world st)") auto
  then obtain e where "out = Inl e" using a by (cases out) (auto simp: raises_def)
  then have u: "reset_memories self E uid st =
      (Inr 0, \<lparr>world = w', trace = trace st
                   @ [Called (MemoryGetAll (or_str uid (user_id self))) False]\<rparr>)"
    using reset_memories_unfold [OF g] by (simp add: Let_def has_results_def returned_def)
  show "fst (reset_memories self E uid st) = Inr 0" using u by simp
  show "trace (snd (reset_memories self E uid st))
                = trace st @ [Called (MemoryGetAll (or_str uid (user_id self))) False]"
    using u by simp
next
  fix contents :: "'a \<Rightarrow> pystr \<Rightarrow> memory_record list"
  assume a: "reliable_engine E contents \<and> contents (world st) (or_str uid (user_id self)) \<noteq> []"
  then have r: "reliable_engine E contents" by simp
  show "fst (reset_memories self E uid st)
              = Inr (int (length (contents (world st) (or_str uid (user_id self)))))"
    using reset_memories_reliable [OF r] by blast
  show "0 < length (contents (world st) (or_str uid (user_id self)))" using a by simp
  have "contents (world (snd (reset_memories self E uid st))) (or_str uid (user_id self)) = []"
    using reset_memories_reliable [OF r] by blast
  then show "fst (reset_memories self E uid (snd (reset_memories self E uid st))) = Inr 0"
    using reset_memories_reliable [OF r, of self uid "snd (reset_memories self E uid st)"]
    by simp
qed

theorem reset_memories_counts_witness:
  "fst (reset_memories (new_manager cfg0) env_store (Some (py ''bruce''))
          \<lparr>world = store0, trace = []\<rparr>) = Inr 2
   \<and> fst (reset_memories (new_manager cfg0) env_store (Some (py ''bruce''))
          (snd (reset_memories (new_manager cfg0) env_store (Some (py ''bruce''))
                  \<lparr>world = store0, trace = []\<rparr>))) = Inr 0"
proof -
  have u: "or_str (Some (py ''bruce'')) (user_id (new_manager cfg0)) = py ''bruce''"
    by (simp add: or_str_def py_def)
  have c: "store_contents store0 (py ''bruce'')
      = [\<lparr>id_key = py ''m1'', memory = py ''Lives in NYC''\<rparr>,
         \<lparr>id_key = py ''m3'', memory = py ''Likes pizza''\<rparr>]"
    by (simp add: store_contents_def store0_def py_def)
  note t = reset_memories_counts [of "new_manager cfg0" env_store "Some (py ''bruce'')"
        "\<lparr>world = store0, trace = []\<rparr>"]
  show ?thesis
    using t [THEN conjunct2, THEN conjunct2, THEN conjunct2, THEN conjunct2,
             THEN spec [where x = store_contents]] env_store_reliable
    by (simp add: u c)
qed

end
